theory Spec2Isabelle
  imports Complex_Main "HOL-Library.Char_ord" "HOL-Library.List_Lexorder"
begin

section \<open>Python library behaviour used by the analytics modules\<close>

text \<open>
  The analytics modules are written in Python. Their \<^verbatim>\<open>float\<close> values are modelled as
  real numbers and a \<^verbatim>\<open>datetime\<close> as a real number of days on the proleptic Gregorian
  day line (day 1 is 0001-01-01, as \<^verbatim>\<open>date.toordinal\<close> counts), so neither binary
  rounding nor the microsecond grid is represented. Exceptions are values of \<open>py_error\<close>.
\<close>

datatype py_error = ValueError | TypeError | OverflowError | StatisticsError | IntegrityError

subsection \<open>Calendar dates (\<^verbatim>\<open>datetime.date\<close>)\<close>

definition is_leap :: "int \<Rightarrow> bool" where
  "is_leap year =
     (if year mod 400 = 0 then True else if year mod 100 = 0 then False else year mod 4 = 0)"

definition days_before_year :: "int \<Rightarrow> int" where
  "days_before_year year = (let y = year - 1 in y * 365 + y div 4 - y div 100 + y div 400)"

definition days_in_month :: "int \<Rightarrow> int \<Rightarrow> int" where
  "days_in_month year month =
     (if month = 2 then (if is_leap year then 29 else 28)
      else if month = 4 \<or> month = 6 \<or> month = 9 \<or> month = 11 then 30 else 31)"

definition days_before_month :: "int \<Rightarrow> int \<Rightarrow> int" where
  "days_before_month year month =
     [0, 31, 59, 90, 120, 151, 181, 212, 243, 273, 304, 334] ! nat (month - 1)
       + (if month > 2 \<and> is_leap year then 1 else 0)"

definition ymd2ord :: "int \<Rightarrow> int \<Rightarrow> int \<Rightarrow> int" where
  "ymd2ord year month day = days_before_year year + days_before_month year month + day"

text \<open>A \<^verbatim>\<open>date\<close> is represented by its ordinal; the constructor checks its arguments
  (years 1 to 9999) and raises \<^verbatim>\<open>ValueError\<close> otherwise.\<close>

type_synonym date = int

definition date :: "int \<Rightarrow> int \<Rightarrow> int \<Rightarrow> py_error + date" where
  "date year month day =
     (if 1 \<le> year \<and> year \<le> 9999 \<and> 1 \<le> month \<and> month \<le> 12
         \<and> 1 \<le> day \<and> day \<le> days_in_month year month
      then Inr (ymd2ord year month day) else Inl ValueError)"

text \<open>\<^verbatim>\<open>date.weekday()\<close>: Monday is 0, Sunday is 6.\<close>

definition weekday :: "date \<Rightarrow> int" where
  "weekday d = (d + 6) mod 7"

text \<open>\<^verbatim>\<open>date + timedelta(days=n)\<close>; the last representable day is 9999-12-31.\<close>

definition date_add_days :: "date \<Rightarrow> int \<Rightarrow> py_error + date" where
  "date_add_days d n =
     (if 1 \<le> d + n \<and> d + n \<le> 3652059 then Inr (d + n) else Inl OverflowError)"

text \<open>The inverse of \<open>ymd2ord\<close>, as the library computes it from 400-, 100-, 4- and
  1-year cycles.\<close>

definition ord2ymd :: "int \<Rightarrow> int \<times> int \<times> int" where
  "ord2ymd ordinal =
     (let n0 = ordinal - 1;
          n400 = n0 div 146097; r400 = n0 mod 146097;
          n100 = r400 div 36524; r100 = r400 mod 36524;
          n4 = r100 div 1461; r4 = r100 mod 1461;
          n1 = r4 div 365; n = r4 mod 365;
          year = n400 * 400 + 1 + n100 * 100 + n4 * 4 + n1
      in if n1 = 4 \<or> n100 = 4 then (year - 1, 12, 31)
         else
           (let leapyear = (n1 = 3 \<and> (n4 \<noteq> 24 \<or> n100 = 3));
                month = (n + 50) div 32;
                preceding = [0, 31, 59, 90, 120, 151, 181, 212, 243, 273, 304, 334] ! nat (month - 1)
                              + (if month > 2 \<and> leapyear then 1 else 0)
            in if preceding > n
               then (let month' = month - 1;
                         preceding' = preceding
                           - ([31, 28, 31, 30, 31, 30, 31, 31, 30, 31, 30, 31] ! nat (month' - 1)
                              + (if month' = 2 \<and> leapyear then 1 else 0))
                     in (year, month', n - preceding' + 1))
               else (year, month, n - preceding + 1)))"

subsection \<open>Timestamps (\<^verbatim>\<open>datetime.datetime\<close>, \<^verbatim>\<open>timedelta\<close>)\<close>

text \<open>\<open>dt_days\<close> is the wall-clock reading in days (ordinal plus the fraction of the day);
  \<open>dt_utcoffset\<close> is \<open>None\<close> for a naive value and the UTC offset in days for an aware one.
  A \<^verbatim>\<open>timedelta\<close> is a real number of days.\<close>

record datetime =
  dt_days :: real
  dt_utcoffset :: "real option"

definition naive :: "real \<Rightarrow> datetime" where
  "naive t = \<lparr>dt_days = t, dt_utcoffset = None\<rparr>"

text \<open>\<^verbatim>\<open>a - b\<close> on two timestamps: mixing naive and aware operands raises
  \<^verbatim>\<open>TypeError\<close>.\<close>

definition datetime_diff :: "datetime \<Rightarrow> datetime \<Rightarrow> py_error + real" where
  "datetime_diff a b =
     (case (dt_utcoffset a, dt_utcoffset b) of
        (None, None) \<Rightarrow> Inr (dt_days a - dt_days b)
      | (Some oa, Some ob) \<Rightarrow> Inr ((dt_days a - oa) - (dt_days b - ob))
      | _ \<Rightarrow> Inl TypeError)"

text \<open>\<^verbatim>\<open>timedelta(days=x)\<close> accepts at most 999999999 days in either direction.\<close>

definition span_in_range :: "real \<Rightarrow> bool" where
  "span_in_range x = (- 999999999 \<le> \<lfloor>x\<rfloor> \<and> \<lfloor>x\<rfloor> \<le> 999999999)"

definition timedelta_days :: "real \<Rightarrow> py_error + real" where
  "timedelta_days x = (if span_in_range x then Inr x else Inl OverflowError)"

text \<open>\<^verbatim>\<open>dt + delta\<close>: the result has to lie between 0001-01-01 and 9999-12-31.\<close>

definition day_in_range :: "real \<Rightarrow> bool" where
  "day_in_range t = (1 \<le> \<lfloor>t\<rfloor> \<and> \<lfloor>t\<rfloor> \<le> 3652059)"

definition datetime_shift :: "datetime \<Rightarrow> real \<Rightarrow> py_error + datetime" where
  "datetime_shift a delta =
     (let t = dt_days a + delta
      in if day_in_range t then Inr (a\<lparr>dt_days := t\<rparr>) else Inl OverflowError)"

definition dt_month :: "datetime \<Rightarrow> int" where
  "dt_month a = fst (snd (ord2ymd \<lfloor>dt_days a\<rfloor>))"

subsection \<open>String parsing, taken as a parameter\<close>

text \<open>
  \<^verbatim>\<open>datetime.strptime(s, '%Y-%m-%d')\<close> and \<^verbatim>\<open>datetime.fromisoformat(s)\<close> belong to the
  Python library, not to the modules verified here. They enter as two functions that
  return \<open>None\<close> where the library raises \<^verbatim>\<open>ValueError\<close>.
\<close>

record parsers =
  strptime_ymd :: "string \<Rightarrow> datetime option"
  fromisoformat :: "string \<Rightarrow> datetime option"

text \<open>\<^verbatim>\<open>s.replace('Z', '+00:00')\<close>\<close>

definition replace_Z :: "string \<Rightarrow> string" where
  "replace_Z s = concat (map (\<lambda>c. if c = CHR ''Z'' then ''+00:00'' else [c]) s)"

subsection \<open>A concrete parser pair for the two canonical layouts\<close>

text \<open>
  \<open>basic_parsers\<close> reads \<^verbatim>\<open>YYYY-MM-DD\<close> and \<^verbatim>\<open>YYYY-MM-DDTHH:MM:SS\<close> with all digits
  present and rejects every other string. On strings of exactly these layouts it yields
  the naive timestamp the library yields; it is used to run the model on sample data.
\<close>

definition digit_val :: "char \<Rightarrow> int option" where
  "digit_val c =
     (let n = (of_char c :: nat) in if 48 \<le> n \<and> n \<le> 57 then Some (int n - 48) else None)"

fun digits_val :: "int \<Rightarrow> string \<Rightarrow> int option" where
  "digits_val acc [] = Some acc"
| "digits_val acc (c # cs) =
     (case digit_val c of None \<Rightarrow> None | Some v \<Rightarrow> digits_val (10 * acc + v) cs)"

definition basic_date :: "string \<Rightarrow> date option" where
  "basic_date s =
     (if length s = 10 \<and> s ! 4 = CHR ''-'' \<and> s ! 7 = CHR ''-'' then
        (case (digits_val 0 (take 4 s), digits_val 0 (take 2 (drop 5 s)), digits_val 0 (drop 8 s)) of
           (Some y, Some m, Some d) \<Rightarrow> (case date y m d of Inl err \<Rightarrow> None | Inr ordinal \<Rightarrow> Some ordinal)
         | _ \<Rightarrow> None)
      else None)"

definition basic_time :: "string \<Rightarrow> real option" where
  "basic_time s =
     (if length s = 8 \<and> s ! 2 = CHR '':'' \<and> s ! 5 = CHR '':'' then
        (case (digits_val 0 (take 2 s), digits_val 0 (take 2 (drop 3 s)), digits_val 0 (drop 6 s)) of
           (Some h, Some m, Some sec) \<Rightarrow>
             (if h < 24 \<and> m < 60 \<and> sec < 60
              then Some (real_of_int (h * 3600 + m * 60 + sec) / 86400) else None)
         | _ \<Rightarrow> None)
      else None)"

definition basic_strptime :: "string \<Rightarrow> datetime option" where
  "basic_strptime s = map_option (\<lambda>d. naive (real_of_int d)) (basic_date s)"

definition basic_fromisoformat :: "string \<Rightarrow> datetime option" where
  "basic_fromisoformat s =
     (if length s = 10 then basic_strptime s
      else if length s = 19 \<and> s ! 10 = CHR ''T'' then
        (case (basic_date (take 10 s), basic_time (drop 11 s)) of
           (Some d, Some t) \<Rightarrow> Some (naive (real_of_int d + t))
         | _ \<Rightarrow> None)
      else None)"

definition basic_parsers :: parsers where
  "basic_parsers = \<lparr>strptime_ymd = basic_strptime, fromisoformat = basic_fromisoformat\<rparr>"

subsection \<open>Rounding and descriptive statistics\<close>

text \<open>\<^verbatim>\<open>round(x)\<close> rounds to the nearest integer, ties to the even one;
  \<^verbatim>\<open>round(x, n)\<close> does the same at \<open>n\<close> decimals.\<close>

definition py_round :: "real \<Rightarrow> int" where
  "py_round x =
     (let f = \<lfloor>x\<rfloor>; r = x - real_of_int f
      in if r < 1 / 2 then f else if 1 / 2 < r then f + 1 else if even f then f else f + 1)"

definition py_round_to :: "real \<Rightarrow> nat \<Rightarrow> real" where
  "py_round_to x n = real_of_int (py_round (x * 10 ^ n)) / 10 ^ n"

text \<open>\<^verbatim>\<open>statistics.stdev\<close>: the sample standard deviation, whose divisor is one less
  than the number of values; it raises on fewer than two values.\<close>

definition stdev :: "real list \<Rightarrow> py_error + real" where
  "stdev xs =
     (if length xs < 2 then Inl StatisticsError
      else (let n = real (length xs);
                m = sum_list xs / n;
                ss = sum_list (map (\<lambda>x. (x - m)\<^sup>2) xs)
            in Inr (sqrt (ss / (n - 1)))))"

subsection \<open>Truth values of nullable columns\<close>

text \<open>Python's \<^verbatim>\<open>bool(x)\<close> on a value read from a nullable column: \<^verbatim>\<open>None\<close>, zero
  and the empty string count as false.\<close>

definition truthy_int :: "int option \<Rightarrow> bool" where
  "truthy_int v = (case v of None \<Rightarrow> False | Some n \<Rightarrow> n \<noteq> 0)"

definition truthy_real :: "real option \<Rightarrow> bool" where
  "truthy_real v = (case v of None \<Rightarrow> False | Some x \<Rightarrow> x \<noteq> 0)"

definition truthy_str :: "string option \<Rightarrow> bool" where
  "truthy_str v = (case v of None \<Rightarrow> False | Some s \<Rightarrow> s \<noteq> [])"

section \<open>seasonal.py: holiday dates\<close>

definition calculate_easter :: "int \<Rightarrow> py_error + date" where
  "calculate_easter year =
     (let a = year mod 19;
          b = year div 100;
          c = year mod 100;
          d = b div 4;
          e = b mod 4;
          f = (b + 8) div 25;
          g = (b - f + 1) div 3;
          h = (19 * a + b - d - g + 15) mod 30;
          i = c div 4;
          k = c mod 4;
          el = (32 + 2 * e + 2 * i - h - k) mod 7;
          m = (a + 11 * h + 22 * el) div 451;
          month = (h + el - 7 * m + 114) div 31;
          day = ((h + el - 7 * m + 114) mod 31) + 1
      in date year month day)"

definition get_holiday_date :: "string \<Rightarrow> int \<Rightarrow> py_error + date option" where
  "get_holiday_date holiday year =
     (if holiday = ''thanksgiving'' then
        (case date year 11 1 of
           Inl err \<Rightarrow> Inl err
         | Inr nov_1 \<Rightarrow>
             (let days_until_thursday = (3 - weekday nov_1) mod 7 in
              case date_add_days nov_1 days_until_thursday of
                Inl err \<Rightarrow> Inl err
              | Inr first_thursday \<Rightarrow>
                  (case date_add_days first_thursday (7 * 3) of
                     Inl err \<Rightarrow> Inl err
                   | Inr fourth \<Rightarrow> Inr (Some fourth))))
      else if holiday = ''christmas'' then map_sum id Some (date year 12 25)
      else if holiday = ''halloween'' then map_sum id Some (date year 10 31)
      else if holiday = ''easter'' then map_sum id Some (calculate_easter year)
      else if holiday = ''july_4th'' then map_sum id Some (date year 7 4)
      else Inr None)"

text \<open>
  The Anonymous Gregorian computus as published (Meeus, Jones, Butcher): the month and day
  of Easter Sunday in year \<open>Y\<close>. This is the reference the module's \<open>calculate_easter\<close> is
  compared with.
\<close>

definition anonymous_gregorian :: "int \<Rightarrow> int \<times> int" where
  "anonymous_gregorian Y =
     (let a = Y mod 19;
          b = Y div 100;
          c = Y mod 100;
          d = b div 4;
          e = b mod 4;
          f = (b + 8) div 25;
          g = (b - f + 1) div 3;
          h = (19 * a + b - d - g + 15) mod 30;
          i = c div 4;
          k = c mod 4;
          l = (32 + 2 * e + 2 * i - h - k) mod 7;
          m = (a + 11 * h + 22 * l) div 451
      in ((h + l - 7 * m + 114) div 31, (h + l - 7 * m + 114) mod 31 + 1))"

section \<open>The analytics database\<close>

text \<open>
  The SQLite tables the modules read and write, with the columns the modelled functions
  touch. A nullable column is an \<open>option\<close>. Statements run one after another on one
  store; the engine's locking between connections is outside the model.
\<close>

record purchase_event =
  ev_product_id :: string
  ev_quantity :: int
  ev_event_type :: string
  ev_event_date :: string
  ev_event_timestamp :: string

record product =
  p_product_id :: string
  p_description :: "string option"
  p_category_type :: "string option"
  p_category_override :: "int option"

record product_statistics =
  ps_total_purchases :: int
  ps_total_quantity :: int
  ps_avg_quantity_per_purchase :: real
  ps_avg_days_between_purchases :: "real option"
  ps_std_dev_days :: real
  ps_last_purchase_date :: string
  ps_first_purchase_date :: string
  ps_purchase_frequency_score :: real
  ps_seasonality_score :: real
  ps_detected_category :: string
  ps_updated_at :: string

record pantry_item =
  pi_product_id :: string
  pi_description :: "string option"
  pi_level_percent :: int
  pi_last_restocked_at :: "string option"
  pi_last_updated_at :: "string option"
  pi_auto_deplete :: "int option"
  pi_daily_depletion_rate :: "real option"
  pi_low_threshold :: int

record database =
  products :: "product list"
  purchase_events :: "purchase_event list"
  product_stats :: "string \<rightharpoonup> product_statistics"
  pantry_items :: "pantry_item list"

definition product_exists :: "database \<Rightarrow> string \<Rightarrow> bool" where
  "product_exists db product_id = (product_id \<in> set (map p_product_id (products db)))"

section \<open>config.py\<close>

record PredictionConfig =
  ewma_alpha :: real
  buffer_routine :: real
  buffer_regular :: real
  buffer_treat :: real
  routine_max_days :: int
  regular_max_days :: int
  seasonality_threshold :: real
  urgency_critical :: real
  urgency_high :: real
  urgency_medium :: real
  min_purchases_for_prediction :: int
  max_confidence_purchases :: int

definition default_config :: PredictionConfig where
  "default_config =
     \<lparr>ewma_alpha = 3 / 10, buffer_routine = 1, buffer_regular = 1 / 2, buffer_treat = 0,
      routine_max_days = 14, regular_max_days = 60, seasonality_threshold = 7 / 10,
      urgency_critical = 9 / 10, urgency_high = 7 / 10, urgency_medium = 4 / 10,
      min_purchases_for_prediction = 2, max_confidence_purchases = 10\<rparr>"

section \<open>statistics.py: the consumption-rate estimator\<close>

record ConsumptionRate =
  days_between :: "real option"
  std_dev :: real
  confidence :: real
  sample_size :: int

definition parse_date :: "parsers \<Rightarrow> string \<Rightarrow> datetime option" where
  "parse_date lib date_str =
     (if date_str = [] then None
      else if CHR ''T'' \<in> set date_str then fromisoformat lib (replace_Z date_str)
      else strptime_ymd lib date_str)"

text \<open>The loop over consecutive events that collects the positive whole-day gaps.\<close>

fun consumption_intervals :: "parsers \<Rightarrow> purchase_event list \<Rightarrow> py_error + int list" where
  "consumption_intervals lib (ev_prev # ev_curr # rest) =
     (case (parse_date lib (ev_event_date ev_prev), parse_date lib (ev_event_date ev_curr)) of
        (Some prev_date, Some curr_date) \<Rightarrow>
          (case datetime_diff curr_date prev_date of
             Inl err \<Rightarrow> Inl err
           | Inr delta \<Rightarrow>
               (case consumption_intervals lib (ev_curr # rest) of
                  Inl err \<Rightarrow> Inl err
                | Inr intervals \<Rightarrow>
                    (let days = \<lfloor>delta\<rfloor> in Inr (if days > 0 then days # intervals else intervals))))
      | _ \<Rightarrow> consumption_intervals lib (ev_curr # rest))"
| "consumption_intervals lib _ = Inr []"

definition ewma_weights :: "nat \<Rightarrow> real list" where
  "ewma_weights n = rev (map (\<lambda>i. (1 / 2) ^ i) [0..<n])"

definition calculate_consumption_rate :: "parsers \<Rightarrow> purchase_event list \<Rightarrow> py_error + ConsumptionRate" where
  "calculate_consumption_rate lib events =
     (let no_data = \<lparr>days_between = None, std_dev = 0, confidence = 0,
                      sample_size = int (length events)\<rparr>
      in if length events < 2 then Inr no_data
         else
           (case consumption_intervals lib events of
              Inl err \<Rightarrow> Inl err
            | Inr intervals \<Rightarrow>
                if intervals = [] then Inr no_data
                else
                  (let weights = ewma_weights (length intervals);
                       ewma = sum_list (map (\<lambda>(w, v). w * real_of_int v) (zip weights intervals))
                                / sum_list weights
                   in case (if length intervals > 1 then stdev (map real_of_int intervals) else Inr 0) of
                        Inl err \<Rightarrow> Inl err
                      | Inr sd \<Rightarrow>
                          (let data_confidence = min 1 (real (length intervals) / 10);
                               consistency = (if ewma > 0 then 1 - min 1 (sd / ewma) else 0)
                           in Inr \<lparr>days_between = Some ewma, std_dev = sd,
                                    confidence = data_confidence * consistency,
                                    sample_size = int (length intervals)\<rparr>))))"

section \<open>seasonal.py: the seasonality score\<close>

definition calculate_seasonality_score :: "parsers \<Rightarrow> purchase_event list \<Rightarrow> real" where
  "calculate_seasonality_score lib events =
     (if length events < 4 then 0
      else
        (let months = map dt_month (List.map_filter (\<lambda>e. parse_date lib (ev_event_date e)) events);
             counts = map (\<lambda>m. real (count_list months m)) [1..12];
             mean_count = sum_list counts / real (length counts)
         in if mean_count = 0 then 0
            else (case stdev counts of
                    Inl err \<Rightarrow> 0
                  | Inr sd \<Rightarrow> min 1 ((sd / mean_count) / 2))))"

section \<open>categories.py\<close>

definition detect_category :: "PredictionConfig \<Rightarrow> real option \<Rightarrow> real \<Rightarrow> int \<Rightarrow> string" where
  "detect_category config avg_days seasonality_score total_purchases =
     (if total_purchases < 3 then ''uncategorized''
      else if seasonality_score > seasonality_threshold config then ''treat''
      else (case avg_days of
              None \<Rightarrow> ''uncategorized''
            | Some d \<Rightarrow>
                if d \<le> real_of_int (routine_max_days config) then ''routine''
                else if d \<le> real_of_int (regular_max_days config) then ''regular''
                else if seasonality_score > 4 / 10 then ''treat''
                else ''regular''))"

record CategoryResult =
  cr_product_id :: string
  cr_category :: string
  cr_previous_category :: "string option"
  cr_was_override :: bool

definition valid_categories :: "string list" where
  "valid_categories = [''routine'', ''regular'', ''treat'', ''uncategorized'']"

definition find_product :: "database \<Rightarrow> string \<Rightarrow> product option" where
  "find_product db product_id = find (\<lambda>p. p_product_id p = product_id) (products db)"

definition set_product_category ::
    "database \<Rightarrow> string \<Rightarrow> string \<Rightarrow> bool \<Rightarrow> py_error + database \<times> CategoryResult" where
  "set_product_category db product_id category is_override =
     (if category \<notin> set valid_categories then Inl ValueError
      else
        (case find_product db product_id of
           Some row \<Rightarrow>
             Inr (db\<lparr>products :=
                       map (\<lambda>p. if p_product_id p = product_id
                                 then p\<lparr>p_category_type := Some category,
                                        p_category_override := Some (if is_override then 1 else 0)\<rparr>
                                 else p) (products db)\<rparr>,
                  \<lparr>cr_product_id = product_id, cr_category = category,
                   cr_previous_category = p_category_type row,
                   cr_was_override = truthy_int (p_category_override row)\<rparr>)
         | None \<Rightarrow>
             Inr (db\<lparr>products := products db @
                       [\<lparr>p_product_id = product_id, p_description = None,
                         p_category_type = Some category,
                         p_category_override = Some (if is_override then 1 else 0)\<rparr>]\<rparr>,
                  \<lparr>cr_product_id = product_id, cr_category = category,
                   cr_previous_category = None, cr_was_override = False\<rparr>)))"

text \<open>One iteration of the batch loop: the classification of a selected product and the
  \<^verbatim>\<open>UPDATE products SET category_type = ? WHERE product_id = ?\<close> that stores it.\<close>

definition categorize_row ::
    "PredictionConfig \<Rightarrow> (string \<rightharpoonup> product_statistics) \<Rightarrow> string \<Rightarrow> product list \<Rightarrow> product list \<times> string" where
  "categorize_row config stats product_id rows =
     (let new_category =
            (case stats product_id of
               None \<Rightarrow> detect_category config None 0 0
             | Some ps \<Rightarrow> detect_category config (ps_avg_days_between_purchases ps)
                            (ps_seasonality_score ps) (ps_total_purchases ps))
      in (map (\<lambda>p. if p_product_id p = product_id then p\<lparr>p_category_type := Some new_category\<rparr> else p) rows,
          new_category))"

fun categorize_loop ::
    "PredictionConfig \<Rightarrow> (string \<rightharpoonup> product_statistics) \<Rightarrow> string list \<Rightarrow> product list \<Rightarrow> (string \<Rightarrow> nat)
       \<Rightarrow> product list \<times> (string \<Rightarrow> nat)" where
  "categorize_loop config stats [] rows changes = (rows, changes)"
| "categorize_loop config stats (product_id # selected) rows changes =
     (case categorize_row config stats product_id rows of
        (rows', new_category) \<Rightarrow>
          categorize_loop config stats selected rows' (changes(new_category := changes new_category + 1)))"

text \<open>The rows selected are those whose override flag is 0 or NULL.\<close>

definition auto_categorize_all :: "PredictionConfig \<Rightarrow> database \<Rightarrow> database \<times> (string \<Rightarrow> nat)" where
  "auto_categorize_all config db =
     (let selected = map p_product_id
                       (filter (\<lambda>p. p_category_override p = Some 0 \<or> p_category_override p = None)
                          (products db))
      in case categorize_loop config (product_stats db) selected (products db) (\<lambda>c. 0) of
           (rows, changes) \<Rightarrow> (db\<lparr>products := rows\<rparr>, changes))"

section \<open>statistics.py: the orchestrator\<close>

definition qualifying_events :: "database \<Rightarrow> string \<Rightarrow> purchase_event list" where
  "qualifying_events db product_id =
     sort_key ev_event_date
       (filter (\<lambda>e. ev_product_id e = product_id
                     \<and> (ev_event_type e = ''order_placed'' \<or> ev_event_type e = ''pantry_depleted''))
          (purchase_events db))"

definition update_product_stats ::
    "parsers \<Rightarrow> PredictionConfig \<Rightarrow> string \<Rightarrow> string \<Rightarrow> database
       \<Rightarrow> py_error + database \<times> (product_statistics \<times> real) option" where
  "update_product_stats lib config now product_id db =
     (let events = qualifying_events db product_id
      in if events = [] then Inr (db, None)
         else
           (let total_purchases = int (length events);
                total_quantity = sum_list (map ev_quantity events);
                avg_quantity = real_of_int total_quantity / real_of_int total_purchases
            in case calculate_consumption_rate lib events of
                 Inl err \<Rightarrow> Inl err
               | Inr consumption \<Rightarrow>
                   (let first_date = ev_event_date (hd events);
                        last_date = ev_event_date (last events);
                        frequency_score =
                          (case days_between consumption of
                             None \<Rightarrow> 0
                           | Some d \<Rightarrow> if d \<noteq> 0 \<and> d > 0 then 1 / d else 0);
                        seasonality = calculate_seasonality_score lib events;
                        detected_cat = detect_category config (days_between consumption)
                                         seasonality total_purchases;
                        row = \<lparr>ps_total_purchases = total_purchases,
                               ps_total_quantity = total_quantity,
                               ps_avg_quantity_per_purchase = avg_quantity,
                               ps_avg_days_between_purchases = days_between consumption,
                               ps_std_dev_days = std_dev consumption,
                               ps_last_purchase_date = last_date,
                               ps_first_purchase_date = first_date,
                               ps_purchase_frequency_score = frequency_score,
                               ps_seasonality_score = seasonality,
                               ps_detected_category = detected_cat,
                               ps_updated_at = now\<rparr>
                    in if \<not> product_exists db product_id then Inl IntegrityError
                       else Inr (db\<lparr>product_stats := (product_stats db)(product_id \<mapsto> row)\<rparr>,
                                 Some (row, confidence consumption)))))"

section \<open>predictions.py\<close>

text \<open>The dictionary \<open>get_product_statistics\<close> returns: a statistics row joined with the
  product's description and category.\<close>

record stats_view =
  sv_total_purchases :: int
  sv_avg_days_between_purchases :: "real option"
  sv_std_dev_days :: "real option"
  sv_last_purchase_date :: "string option"
  sv_category_type :: "string option"
  sv_description :: "string option"

definition get_product_statistics :: "database \<Rightarrow> string \<Rightarrow> stats_view option" where
  "get_product_statistics db product_id =
     (case product_stats db product_id of
        None \<Rightarrow> None
      | Some ps \<Rightarrow>
          Some \<lparr>sv_total_purchases = ps_total_purchases ps,
                sv_avg_days_between_purchases = ps_avg_days_between_purchases ps,
                sv_std_dev_days = Some (ps_std_dev_days ps),
                sv_last_purchase_date = Some (ps_last_purchase_date ps),
                sv_category_type =
                  (case find_product db product_id of None \<Rightarrow> None | Some p \<Rightarrow> p_category_type p),
                sv_description =
                  (case find_product db product_id of None \<Rightarrow> None | Some p \<Rightarrow> p_description p)\<rparr>)"

record RepurchasePrediction =
  rp_product_id :: string
  rp_description :: "string option"
  rp_category :: "string option"
  rp_predicted_date :: "datetime option"
  rp_days_until :: "int option"
  rp_urgency :: real
  rp_urgency_label :: string
  rp_confidence :: real
  rp_last_purchase_date :: "string option"
  rp_avg_days_between :: "real option"

definition get_urgency_label :: "real \<Rightarrow> string" where
  "get_urgency_label urgency =
     (if urgency \<ge> 9 / 10 then ''critical''
      else if urgency \<ge> 7 / 10 then ''high''
      else if urgency \<ge> 4 / 10 then ''medium''
      else ''low'')"

text \<open>The result built on each of the three early returns.\<close>

definition no_prediction ::
    "string \<Rightarrow> string option \<Rightarrow> string option \<Rightarrow> string option \<Rightarrow> real option \<Rightarrow> RepurchasePrediction" where
  "no_prediction product_id description category last_purchase_date avg_days_between =
     \<lparr>rp_product_id = product_id, rp_description = description, rp_category = category,
      rp_predicted_date = None, rp_days_until = None, rp_urgency = 0, rp_urgency_label = ''low'',
      rp_confidence = 0, rp_last_purchase_date = last_purchase_date,
      rp_avg_days_between = avg_days_between\<rparr>"

text \<open>The urgency block of \<open>predict_repurchase_date\<close>: the score from the days left, then
  the boost for routine items.\<close>

definition compute_urgency :: "int \<Rightarrow> string option \<Rightarrow> real" where
  "compute_urgency days_until category =
     (let urgency =
            (if days_until < 0 then 1
             else if days_until = 0 then 9 / 10
             else if days_until \<le> 14 then 1 - real_of_int days_until / 14
             else 0)
      in if category = Some ''routine'' \<and> urgency > 0 then min 1 (urgency * (12 / 10)) else urgency)"

text \<open>The confidence block of \<open>predict_repurchase_date\<close>.\<close>

definition compute_confidence :: "int \<Rightarrow> real \<Rightarrow> real \<Rightarrow> real" where
  "compute_confidence total_purchases avg_days sd =
     (let data_confidence = min 1 (real_of_int total_purchases / 10);
          consistency = (if avg_days > 0 then 1 - min 1 (sd / avg_days) else 0)
      in data_confidence * consistency)"

definition buffer_multiplier :: "string option \<Rightarrow> real" where
  "buffer_multiplier category =
     (if category = Some ''routine'' then 1 else if category = Some ''regular'' then 1 / 2 else 0)"

text \<open>\<open>now\<close> is the reading of \<^verbatim>\<open>datetime.now()\<close>, a naive timestamp, in days.\<close>

definition predict_repurchase_date ::
    "parsers \<Rightarrow> database \<Rightarrow> real \<Rightarrow> string \<Rightarrow> stats_view option \<Rightarrow> py_error + RepurchasePrediction" where
  "predict_repurchase_date lib db now product_id stats_arg =
     (let stats = (case stats_arg of None \<Rightarrow> get_product_statistics db product_id | Some s \<Rightarrow> Some s)
      in case stats of
           None \<Rightarrow> Inr (no_prediction product_id None (Some ''uncategorized'') None None)
         | Some s \<Rightarrow>
             if sv_total_purchases s < 2
             then Inr (no_prediction product_id (sv_description s) (sv_category_type s) None None)
             else
               (let avg_days = sv_avg_days_between_purchases s;
                    sd = (case sv_std_dev_days s of None \<Rightarrow> 0 | Some x \<Rightarrow> x);
                    last_date_str = sv_last_purchase_date s;
                    category = sv_category_type s;
                    description = sv_description s;
                    unknown = no_prediction product_id description category last_date_str avg_days
                in if \<not> truthy_real avg_days \<or> \<not> truthy_str last_date_str then Inr unknown
                   else
                     (case (if CHR ''T'' \<in> set (the last_date_str)
                            then fromisoformat lib (replace_Z (the last_date_str))
                            else strptime_ymd lib (the last_date_str)) of
                        None \<Rightarrow> Inr unknown
                      | Some last_date \<Rightarrow>
                          (case timedelta_days (the avg_days) of
                             Inl err \<Rightarrow> Inl err
                           | Inr interval \<Rightarrow>
                          (case datetime_shift last_date interval of
                             Inl err \<Rightarrow> Inl err
                           | Inr base_prediction \<Rightarrow>
                          (case timedelta_days (sd * buffer_multiplier category) of
                             Inl err \<Rightarrow> Inl err
                           | Inr buffer_days \<Rightarrow>
                          (case datetime_shift base_prediction (- buffer_days) of
                             Inl err \<Rightarrow> Inl err
                           | Inr predicted_date \<Rightarrow>
                          (case datetime_diff predicted_date (naive now) of
                             Inl err \<Rightarrow> Inl err
                           | Inr remaining \<Rightarrow>
                               (let days_until = \<lfloor>remaining\<rfloor>;
                                    urgency = compute_urgency days_until category;
                                    conf = compute_confidence (sv_total_purchases s) (the avg_days) sd
                                in Inr \<lparr>rp_product_id = product_id,
                                         rp_description = description,
                                         rp_category = category,
                                         rp_predicted_date = Some predicted_date,
                                         rp_days_until = Some days_until,
                                         rp_urgency = py_round_to urgency 2,
                                         rp_urgency_label = get_urgency_label urgency,
                                         rp_confidence = py_round_to conf 2,
                                         rp_last_purchase_date = last_date_str,
                                         rp_avg_days_between = Some (py_round_to (the avg_days) 1)\<rparr>)))))))))"

section \<open>pantry.py\<close>

definition calculate_depletion_rate :: "database \<Rightarrow> string \<Rightarrow> real" where
  "calculate_depletion_rate db product_id =
     (case product_stats db product_id of
        None \<Rightarrow> 0
      | Some row \<Rightarrow>
          (case ps_avg_days_between_purchases row of
             None \<Rightarrow> 0
           | Some avg_days \<Rightarrow> if avg_days \<noteq> 0 \<and> avg_days > 0 then 100 / avg_days else 0))"

record pantry_status =
  st_product_id :: string
  st_description :: "string option"
  st_level_percent :: int
  st_status :: string
  st_days_until_empty :: "real option"
  st_last_restocked :: "string option"
  st_low_threshold :: int
  st_auto_deplete :: bool
  st_daily_depletion_rate :: real

text \<open>The level the status read works with: the stored level, lowered by the depletion
  since the last update when that applies.\<close>

definition current_level :: "parsers \<Rightarrow> real \<Rightarrow> bool \<Rightarrow> pantry_item \<Rightarrow> real" where
  "current_level lib now apply_depletion item =
     (let level = real_of_int (pi_level_percent item)
      in if apply_depletion \<and> truthy_int (pi_auto_deplete item)
            \<and> truthy_real (pi_daily_depletion_rate item)
         then
           (case pi_last_updated_at item of
              None \<Rightarrow> level
            | Some last_updated \<Rightarrow>
                if last_updated = [] then level
                else
                  (case fromisoformat lib last_updated of
                     None \<Rightarrow> level
                   | Some last_dt \<Rightarrow>
                       (case datetime_diff (naive now) last_dt of
                          Inl err \<Rightarrow> level
                        | Inr elapsed \<Rightarrow>
                            (let days_elapsed = (elapsed * 86400) / 86400;
                                 depletion = days_elapsed * the (pi_daily_depletion_rate item)
                             in max 0 (level - depletion)))))
         else level)"

definition item_status :: "parsers \<Rightarrow> real \<Rightarrow> bool \<Rightarrow> pantry_item \<Rightarrow> pantry_status" where
  "item_status lib now apply_depletion item =
     (let level = current_level lib now apply_depletion item;
          rate = pi_daily_depletion_rate item;
          days_until_empty =
            (if truthy_real rate \<and> the rate > 0 then Some (py_round_to (level / the rate) 1) else None);
          status = (if level \<le> 0 then ''out''
                    else if level \<le> real_of_int (pi_low_threshold item) then ''low''
                    else ''ok'')
      in \<lparr>st_product_id = pi_product_id item,
          st_description = pi_description item,
          st_level_percent = py_round level,
          st_status = status,
          st_days_until_empty = days_until_empty,
          st_last_restocked = pi_last_restocked_at item,
          st_low_threshold = pi_low_threshold item,
          st_auto_deplete = truthy_int (pi_auto_deplete item),
          st_daily_depletion_rate = (if truthy_real rate then py_round_to (the rate) 2 else 0)\<rparr>)"

definition get_pantry_status :: "parsers \<Rightarrow> database \<Rightarrow> real \<Rightarrow> bool \<Rightarrow> pantry_status list" where
  "get_pantry_status lib db now apply_depletion =
     map (item_status lib now apply_depletion) (sort_key pi_level_percent (pantry_items db))"

definition find_pantry_item :: "database \<Rightarrow> string \<Rightarrow> pantry_item option" where
  "find_pantry_item db product_id = find (\<lambda>i. pi_product_id i = product_id) (pantry_items db)"

definition depletion_event :: "string \<Rightarrow> string \<Rightarrow> purchase_event" where
  "depletion_event product_id depleted_at =
     \<lparr>ev_product_id = product_id, ev_quantity = 1, ev_event_type = ''pantry_depleted'',
      ev_event_date = take 10 depleted_at, ev_event_timestamp = depleted_at\<rparr>"

text \<open>
  \<open>record_depletion_event\<close> catches every exception and answers \<open>False\<close>. The event is
  committed before the statistics are recomputed, so it stays when the recomputation
  raises. An event for a product missing from \<open>products\<close> violates the foreign key and is
  not inserted. \<open>stats_now\<close> is the clock reading taken by the recomputation.
\<close>

definition record_depletion_event ::
    "parsers \<Rightarrow> PredictionConfig \<Rightarrow> string \<Rightarrow> database \<Rightarrow> string \<Rightarrow> string \<Rightarrow> string
       \<Rightarrow> database \<times> bool" where
  "record_depletion_event lib config stats_now db product_id last_restocked_at depleted_at =
     (if \<not> product_exists db product_id then (db, False)
      else
        (let db1 = db\<lparr>purchase_events := purchase_events db @ [depletion_event product_id depleted_at]\<rparr>
         in case update_product_stats lib config stats_now product_id db1 of
              Inl err \<Rightarrow> (db1, False)
            | Inr (db2, report) \<Rightarrow>
                (let new_rate = calculate_depletion_rate db2 product_id
                 in (db2\<lparr>pantry_items :=
                           map (\<lambda>i. if pi_product_id i = product_id
                                     then i\<lparr>pi_daily_depletion_rate := Some new_rate\<rparr> else i)
                             (pantry_items db2)\<rparr>,
                     True))))"

datatype level_update = NotInPantry | LevelSet int string bool

text \<open>\<open>now_str\<close> is \<^verbatim>\<open>datetime.now().isoformat()\<close> as read on entry.\<close>

definition update_pantry_level ::
    "parsers \<Rightarrow> PredictionConfig \<Rightarrow> string \<Rightarrow> string \<Rightarrow> string \<Rightarrow> int \<Rightarrow> database
       \<Rightarrow> database \<times> level_update" where
  "update_pantry_level lib config now_str stats_now product_id level0 db =
     (let level = max 0 (min 100 level0)
      in case find_pantry_item db product_id of
           None \<Rightarrow> (db, NotInPantry)
         | Some row \<Rightarrow>
             (let previous_level = pi_level_percent row;
                  last_restocked = pi_last_restocked_at row
              in case (if level \<le> 5 \<and> previous_level > 5 \<and> truthy_str last_restocked
                       then record_depletion_event lib config stats_now db product_id
                              (the last_restocked) now_str
                       else (db, False)) of
                   (db1, depletion_recorded) \<Rightarrow>
                     (db1\<lparr>pantry_items :=
                            map (\<lambda>i. if pi_product_id i = product_id
                                      then i\<lparr>pi_level_percent := level,
                                             pi_last_updated_at := Some now_str\<rparr> else i)
                              (pantry_items db1)\<rparr>,
                      LevelSet level now_str depletion_recorded)))"

section \<open>Reference notions and sample data for the statements\<close>

text \<open>The whole-day gaps between consecutive timestamps, and those among them that are
  positive: the intervals the estimator is specified on.\<close>

definition whole_day_gaps :: "real list \<Rightarrow> int list" where
  "whole_day_gaps ts = map (\<lambda>(p, c). \<lfloor>c - p\<rfloor>) (zip ts (tl ts))"

definition positive_intervals :: "real list \<Rightarrow> int list" where
  "positive_intervals ts = filter (\<lambda>d. 0 < d) (whole_day_gaps ts)"

text \<open>The average of \<open>xs\<close> in which the value at position \<open>j\<close> (counted from 0, oldest first)
  has weight \<open>0.5 ^ (n - 1 - j)\<close>: the newest value weighs 1, the one before it 0.5, and
  so on.\<close>

definition halving_weighted_average :: "int list \<Rightarrow> real" where
  "halving_weighted_average xs =
     (\<Sum>j<length xs. (1 / 2) ^ (length xs - 1 - j) * real_of_int (xs ! j))
       / (\<Sum>j<length xs. (1 / 2) ^ (length xs - 1 - j))"

text \<open>The standard deviation of \<open>xs\<close> about its mean, with the sample divisor \<open>n - 1\<close>
  and with the population divisor \<open>n\<close>.\<close>

definition mean_of :: "int list \<Rightarrow> real" where
  "mean_of xs = (\<Sum>j<length xs. real_of_int (xs ! j)) / real (length xs)"

definition sample_deviation :: "int list \<Rightarrow> real" where
  "sample_deviation xs =
     sqrt ((\<Sum>j<length xs. (real_of_int (xs ! j) - mean_of xs)\<^sup>2) / (real (length xs) - 1))"

definition population_deviation :: "int list \<Rightarrow> real" where
  "population_deviation xs =
     sqrt ((\<Sum>j<length xs. (real_of_int (xs ! j) - mean_of xs)\<^sup>2) / real (length xs))"

definition order_placed_on :: "string \<Rightarrow> string \<Rightarrow> purchase_event" where
  "order_placed_on product_id day =
     \<lparr>ev_product_id = product_id, ev_quantity = 1, ev_event_type = ''order_placed'',
      ev_event_date = day, ev_event_timestamp = day\<rparr>"


text \<open>A small store: milk ordered on three consecutive Mondays, eggs ordered once; both
  tracked in the pantry since 2024-01-15.\<close>

definition sample_db :: database where
  "sample_db =
     \<lparr>products =
        [\<lparr>p_product_id = ''milk'', p_description = Some ''Whole milk'',
          p_category_type = Some ''uncategorized'', p_category_override = Some 0\<rparr>,
         \<lparr>p_product_id = ''eggs'', p_description = Some ''Eggs'',
          p_category_type = Some ''uncategorized'', p_category_override = Some 0\<rparr>],
      purchase_events =
        [order_placed_on ''milk'' ''2024-01-01'', order_placed_on ''milk'' ''2024-01-08'',
         order_placed_on ''milk'' ''2024-01-15'', order_placed_on ''eggs'' ''2024-01-15''],
      product_stats = Map.empty,
      pantry_items =
        [\<lparr>pi_product_id = ''eggs'', pi_description = Some ''Eggs'', pi_level_percent = 80,
          pi_last_restocked_at = Some ''2024-01-15T00:00:00'',
          pi_last_updated_at = Some ''2024-01-15T00:00:00'',
          pi_auto_deplete = Some 1, pi_daily_depletion_rate = Some 0, pi_low_threshold = 20\<rparr>,
         \<lparr>pi_product_id = ''milk'', pi_description = Some ''Whole milk'', pi_level_percent = 100,
          pi_last_restocked_at = Some ''2024-01-15T00:00:00'',
          pi_last_updated_at = Some ''2024-01-15T00:00:00'',
          pi_auto_deplete = Some 1, pi_daily_depletion_rate = Some 10, pi_low_threshold = 20\<rparr>]\<rparr>"


text \<open>The events whose date, when it parses at all, parses to a naive timestamp. Every
  date the modules store has the layout \<^verbatim>\<open>YYYY-MM-DD\<close>, which parses to one.\<close>

definition dates_naive :: "parsers \<Rightarrow> purchase_event list \<Rightarrow> bool" where
  "dates_naive lib events =
     list_all (\<lambda>e. case parse_date lib (ev_event_date e) of
                      None \<Rightarrow> True
                    | Some d \<Rightarrow> dt_utcoffset d = None) events"

section \<open>Holiday dates\<close>

lemma pred_div:
  fixes y n :: int
  assumes "0 < n"
  shows "(y - 1) div n + (if y mod n = 0 then 1 else 0) = y div n"
proof (cases "y mod n = 0")
  case True
  have "y - 1 = n * (y div n - 1) + (n - 1)"
    using True by (simp add: algebra_simps) (metis True add.right_neutral mult.commute mult_div_mod_eq)
  then have "(y - 1) div n = y div n - 1"
    using assms by (intro int_div_pos_eq[of _ _ _ "n - 1"]) auto
  with True show ?thesis by simp
next
  case False
  have r: "0 < y mod n" "y mod n < n"
    using False assms pos_mod_sign[of n y] pos_mod_bound[of n y] by linarith+
  have "y - 1 = n * (y div n) + (y mod n - 1)"
    by (simp add: algebra_simps)
  then have "(y - 1) div n = y div n"
    using assms r by (intro int_div_pos_eq[of _ _ _ "y mod n - 1"]) auto
  with False show ?thesis by simp
qed

lemma mod_100_4: "(y::int) mod 100 = 0 \<Longrightarrow> y mod 4 = 0"
  using mod_mod_cancel[of 4 100 y] by simp

lemma mod_400_100: "(y::int) mod 400 = 0 \<Longrightarrow> y mod 100 = 0"
  using mod_mod_cancel[of 100 400 y] by simp

lemma days_before_year_leap:
  "days_before_year y + (if is_leap y then 1 else 0)
     = 365 * (y - 1) + y div 4 - y div 100 + y div 400"
proof -
  have p4: "(y - 1) div 4 = y div 4 - (if y mod 4 = 0 then 1 else 0)"
    using pred_div[of 4 y] by simp
  have p100: "(y - 1) div 100 = y div 100 - (if y mod 100 = 0 then 1 else 0)"
    using pred_div[of 100 y] by simp
  have p400: "(y - 1) div 400 = y div 400 - (if y mod 400 = 0 then 1 else 0)"
    using pred_div[of 400 y] by simp
  show ?thesis
    unfolding days_before_year_def is_leap_def Let_def p4 p100 p400
    using mod_100_4[of y] mod_400_100[of y] by (simp split: if_splits)
qed

lemma days_before_year_bounds:
  assumes "1 \<le> y" "y \<le> 9999"
  shows "0 \<le> days_before_year y" "days_before_year y \<le> 3651695"
proof -
  define z where "z = y - 1"
  have z: "0 \<le> z" "z \<le> 9998" using assms by (simp_all add: z_def)
  have a: "4 * (z div 4) \<le> z" "0 \<le> z div 4" using z by simp_all
  have b: "z - 99 \<le> 100 * (z div 100)" "100 * (z div 100) \<le> z"
    using pos_mod_bound[of 100 z] mult_div_mod_eq[of 100 z] by linarith+
  have c: "400 * (z div 400) \<le> z" "0 \<le> z div 400" using z by simp_all
  have "days_before_year y = z * 365 + z div 4 - z div 100 + z div 400"
    unfolding days_before_year_def Let_def z_def by simp
  then show "0 \<le> days_before_year y" "days_before_year y \<le> 3651695"
    using z a b c by linarith+
qed

lemma mod_range:
  fixes x n :: int
  assumes "0 < n"
  shows "0 \<le> x mod n" "x mod n \<le> n - 1"
  using pos_mod_sign[OF assms, of x] pos_mod_bound[OF assms, of x] by linarith+

lemma sunday_core:
  fixes y h :: int
  assumes "el = (32 + 2 * (y div 100 mod 4) + 2 * (y mod 100 div 4) - h - y mod 100 mod 4) mod 7"
  shows "(365 * (y - 1) + y div 4 - y div 100 + y div 400 + 81 + (h + el - 7 * m)) mod 7 = 0"
proof -
  define b where "b = y div 100"
  define c where "c = y mod 100"
  define d where "d = b div 4"
  define e where "e = b mod 4"
  define i where "i = c div 4"
  define k where "k = c mod 4"
  have y: "y = 100 * b + c" unfolding b_def c_def by simp
  have b: "b = 4 * d + e" unfolding d_def e_def by simp
  have c: "c = 4 * i + k" unfolding i_def k_def by simp
  have c_rng: "0 \<le> c" "c < 100" unfolding c_def by simp_all
  have e_rng: "0 \<le> e" "e < 4" unfolding e_def by simp_all
  have k_rng: "0 \<le> k" "k < 4" unfolding k_def by simp_all
  have "y = 4 * (25 * b + i) + k" using y c by simp
  then have y4: "y div 4 = 25 * b + i"
    using k_rng by (rule int_div_pos_eq)
  have y100: "y div 100 = b" by (simp add: b_def)
  have "y = 400 * d + (100 * e + c)" using y b by simp
  moreover have "0 \<le> 100 * e + c" "100 * e + c < 400" using c_rng e_rng by simp_all
  ultimately have y400: "y div 400 = d"
    by (rule int_div_pos_eq)
  have el: "el = (32 + 2 * e + 2 * i - h - k) mod 7"
    unfolding assms e_def i_def k_def b_def c_def by (rule refl)
  define q where "q = (32 + 2 * e + 2 * i - h - k) div 7"
  have q: "32 + 2 * e + 2 * i - h - k = 7 * q + el"
    unfolding q_def el by simp
  have "365 * (100 * b + c - 1) + (25 * b + i) - b + d + 81 + (h + el - 7 * m)
        = 7 * (20871 * d + 5218 * e + 209 * i + 52 * k - 36 - m - q)"
    using b c q by simp
  then have N: "365 * (y - 1) + y div 4 - y div 100 + y div 400 + 81 + (h + el - 7 * m)
        = 7 * (20871 * d + 5218 * e + 209 * i + 52 * k - 36 - m - q)"
    unfolding y4 y100 y400 using y by simp
  show ?thesis by (simp only: N mod_mult_self1_is_0)
qed

lemma easter_offset_range:
  fixes a h el :: int
  assumes "0 \<le> a" "a \<le> 18" "0 \<le> h" "h \<le> 29" "0 \<le> el" "el \<le> 6"
  shows "0 \<le> h + el - 7 * ((a + 11 * h + 22 * el) div 451)"
    and "h + el - 7 * ((a + 11 * h + 22 * el) div 451) \<le> 34"
proof -
  define t where "t = a + 11 * h + 22 * el"
  define m where "m = t div 451"
  have t: "0 \<le> t" "t \<le> 469" using assms by (simp_all add: t_def)
  have tm: "t = 451 * m + t mod 451" by (simp add: m_def)
  have r: "0 \<le> t mod 451" "t mod 451 < 451" by simp_all
  have m01: "m = 0 \<or> m = 1" using t tm r by linarith
  have "0 \<le> h + el - 7 * m \<and> h + el - 7 * m \<le> 34"
  proof (cases "m = 0")
    case True
    have "a + 11 * h + 22 * el < 451" using tm r True unfolding t_def by linarith
    then show ?thesis using True assms by linarith
  next
    case False
    then have m1: "m = 1" using m01 by simp
    have "451 \<le> a + 11 * h + 22 * el" using tm r m1 unfolding t_def by linarith
    then show ?thesis using m1 assms by linarith
  qed
  then show "0 \<le> h + el - 7 * ((a + 11 * h + 22 * el) div 451)"
    and "h + el - 7 * ((a + 11 * h + 22 * el) div 451) \<le> 34"
    unfolding m_def t_def by simp_all
qed

lemma ymd2ord_march: "ymd2ord y 3 d = days_before_year y + (if is_leap y then 1 else 0) + 59 + d"
  by (simp add: ymd2ord_def days_before_month_def)

lemma ymd2ord_april: "ymd2ord y 4 d = days_before_year y + (if is_leap y then 1 else 0) + 90 + d"
  by (simp add: ymd2ord_def days_before_month_def)

lemma ymd2ord_november: "ymd2ord y 11 d = days_before_year y + (if is_leap y then 1 else 0) + 304 + d"
  by (simp add: ymd2ord_def days_before_month_def)

lemma calculate_easter_refines:
  "calculate_easter y = date y (fst (anonymous_gregorian y)) (snd (anonymous_gregorian y))"
  by (simp only: calculate_easter_def anonymous_gregorian_def Let_def fst_conv snd_conv)

lemma anonymous_gregorian_offset:
  fixes p :: int
  assumes "0 \<le> p" "p \<le> 34"
  shows "((p + 114) div 31 = 3 \<and> (p + 114) mod 31 + 1 = p + 22 \<and> p \<le> 9)
       \<or> ((p + 114) div 31 = 4 \<and> (p + 114) mod 31 + 1 = p - 9 \<and> 10 \<le> p)"
proof (cases "p \<le> 9")
  case True
  have "p + 114 = 31 * 3 + (p + 21)" by simp
  then have d: "(p + 114) div 31 = 3"
    using assms True by (intro int_div_pos_eq[of _ _ _ "p + 21"]) auto
  have "(p + 114) mod 31 = p + 114 - 31 * ((p + 114) div 31)"
    by (simp add: minus_mult_div_eq_mod)
  then show ?thesis using d True by simp
next
  case False
  have "p + 114 = 31 * 4 + (p - 10)" by simp
  then have d: "(p + 114) div 31 = 4"
    using assms False by (intro int_div_pos_eq[of _ _ _ "p - 10"]) auto
  have "(p + 114) mod 31 = p + 114 - 31 * ((p + 114) div 31)"
    by (simp add: minus_mult_div_eq_mod)
  then show ?thesis using d False by simp
qed

lemma anonymous_gregorian_sunday:
  assumes "1 \<le> y" "y \<le> 9999"
  shows "\<exists>p. 0 \<le> p \<and> p \<le> 34
          \<and> ((anonymous_gregorian y = (3, p + 22) \<and> p \<le> 9) \<or> (anonymous_gregorian y = (4, p - 9) \<and> 10 \<le> p))
          \<and> (days_before_year y + (if is_leap y then 1 else 0) + 81 + p) mod 7 = 0"
proof -
  define a where "a = y mod 19"
  define b where "b = y div 100"
  define g where "g = (b - (b + 8) div 25 + 1) div 3"
  define h where "h = (19 * a + b - b div 4 - g + 15) mod 30"
  define el where "el = (32 + 2 * (y div 100 mod 4) + 2 * (y mod 100 div 4) - h - y mod 100 mod 4) mod 7"
  define m where "m = (a + 11 * h + 22 * el) div 451"
  define p where "p = h + el - 7 * m"
  have ag: "anonymous_gregorian y = ((p + 114) div 31, (p + 114) mod 31 + 1)"
    unfolding anonymous_gregorian_def Let_def p_def m_def el_def h_def g_def b_def a_def
    by (rule refl)
  have rng: "0 \<le> a" "a \<le> 18" "0 \<le> h" "h \<le> 29" "0 \<le> el" "el \<le> 6"
    unfolding a_def h_def el_def
    using mod_range[of 19] mod_range[of 30] mod_range[of 7] by simp_all
  have p: "0 \<le> p" "p \<le> 34"
    unfolding p_def m_def using easter_offset_range[OF rng] by simp_all
  have sun: "(days_before_year y + (if is_leap y then 1 else 0) + 81 + p) mod 7 = 0"
    unfolding days_before_year_leap p_def using sunday_core[OF el_def, of m] by simp
  show ?thesis
    using p anonymous_gregorian_offset[OF p] sun unfolding ag
    by (intro exI[of _ p]) auto
qed

lemma date_valid:
  assumes "1 \<le> y" "y \<le> 9999" "1 \<le> m" "m \<le> 12" "1 \<le> d" "d \<le> days_in_month y m"
  shows "date y m d = Inr (ymd2ord y m d)"
  using assms by (simp add: date_def)

lemma leap_ind_range: "0 \<le> (if is_leap y then 1 else 0::int)" "(if is_leap y then 1 else 0::int) \<le> 1"
  by simp_all

lemma thursday_offset:
  fixes n :: int
  shows "(n + (3 - (n + 6) mod 7) mod 7 + 27) mod 7 = 3"
  by presburger

lemma thanksgiving_fourth_thursday:
  assumes "1 \<le> y" "y \<le> 9999"
  shows "\<exists>d. 22 \<le> d \<and> d \<le> 28
           \<and> get_holiday_date ''thanksgiving'' y = Inr (Some (ymd2ord y 11 d))
           \<and> weekday (ymd2ord y 11 d) = 3"
proof -
  define n where "n = ymd2ord y 11 1"
  define t where "t = (3 - weekday n) mod 7"
  have nov1: "date y 11 1 = Inr n"
    unfolding n_def using assms by (intro date_valid) (simp_all add: days_in_month_def)
  have t: "0 \<le> t" "t \<le> 6" unfolding t_def using mod_range[of 7] by simp_all
  have n_eq: "n = days_before_year y + (if is_leap y then 1 else 0) + 305"
    unfolding n_def ymd2ord_november by simp
  have n_rng: "1 \<le> n" "n \<le> 3652001"
    using days_before_year_bounds[OF assms] leap_ind_range[of y] unfolding n_eq by linarith+
  have a1: "date_add_days n t = Inr (n + t)"
    using n_rng t by (simp add: date_add_days_def)
  have a2: "date_add_days (n + t) (7 * 3) = Inr (n + t + 21)"
    using n_rng t by (simp add: date_add_days_def)
  have res: "get_holiday_date ''thanksgiving'' y = Inr (Some (n + t + 21))"
    unfolding get_holiday_date_def using nov1 a1 a2
    by (simp add: Let_def t_def[symmetric])
  have ord: "n + t + 21 = ymd2ord y 11 (22 + t)"
    unfolding n_def ymd2ord_november by simp
  have wd: "weekday (n + t + 21) = 3"
    unfolding weekday_def t_def using thursday_offset[of n] by (simp add: algebra_simps)
  show ?thesis
    using t res wd unfolding ord by (intro exI[of _ "22 + t"]) simp
qed

lemma sunday_weekday: "(x::int) mod 7 = 0 \<Longrightarrow> (x + 6) mod 7 = 6"
  by presburger

lemma easter_sunday:
  assumes "1 \<le> y" "y \<le> 9999"
  shows "get_holiday_date ''easter'' y
           = Inr (Some (ymd2ord y (fst (anonymous_gregorian y)) (snd (anonymous_gregorian y))))
       \<and> ((fst (anonymous_gregorian y) = 3 \<and> 22 \<le> snd (anonymous_gregorian y) \<and> snd (anonymous_gregorian y) \<le> 31)
         \<or> (fst (anonymous_gregorian y) = 4 \<and> 1 \<le> snd (anonymous_gregorian y) \<and> snd (anonymous_gregorian y) \<le> 25))
       \<and> weekday (ymd2ord y (fst (anonymous_gregorian y)) (snd (anonymous_gregorian y))) = 6"
proof -
  define mo where "mo = fst (anonymous_gregorian y)"
  define dy where "dy = snd (anonymous_gregorian y)"
  from anonymous_gregorian_sunday[OF assms] obtain p where P: "0 \<le> p \<and> p \<le> 34
          \<and> ((anonymous_gregorian y = (3, p + 22) \<and> p \<le> 9) \<or> (anonymous_gregorian y = (4, p - 9) \<and> 10 \<le> p))
          \<and> (days_before_year y + (if is_leap y then 1 else 0) + 81 + p) mod 7 = 0" ..
  note p = P[THEN conjunct1] P[THEN conjunct2, THEN conjunct1]
  note ag = P[THEN conjunct2, THEN conjunct2, THEN conjunct1]
  note sun = P[THEN conjunct2, THEN conjunct2, THEN conjunct2]
  from ag consider (march) "mo = 3" "dy = p + 22" "p \<le> 9" | (april) "mo = 4" "dy = p - 9" "10 \<le> p"
    unfolding mo_def dy_def by fastforce
  then have main: "ymd2ord y mo dy = days_before_year y + (if is_leap y then 1 else 0) + 81 + p
      \<and> ((mo = 3 \<and> 22 \<le> dy \<and> dy \<le> 31) \<or> (mo = 4 \<and> 1 \<le> dy \<and> dy \<le> 25))
      \<and> date y mo dy = Inr (ymd2ord y mo dy)"
  proof cases
    case march
    have "date y 3 (p + 22) = Inr (ymd2ord y 3 (p + 22))"
      using assms p march(3) by (intro date_valid) (simp_all add: days_in_month_def)
    then show ?thesis using march p by (simp add: ymd2ord_march)
  next
    case april
    have "date y 4 (p - 9) = Inr (ymd2ord y 4 (p - 9))"
      using assms p april(3) by (intro date_valid) (simp_all add: days_in_month_def)
    then show ?thesis using april p by (simp add: ymd2ord_april)
  qed
  have wd: "weekday (ymd2ord y mo dy) = 6"
    using main sunday_weekday[OF sun] by (simp add: weekday_def)
  have "calculate_easter y = Inr (ymd2ord y mo dy)"
    using main unfolding calculate_easter_refines mo_def dy_def by simp
  then have "get_holiday_date ''easter'' y = Inr (Some (ymd2ord y mo dy))"
    by (simp add: get_holiday_date_def)
  then show ?thesis using main wd unfolding mo_def dy_def by simp
qed

lemma fixed_holidays:
  assumes "1 \<le> y" "y \<le> 9999"
  shows "get_holiday_date ''christmas'' y = Inr (Some (ymd2ord y 12 25))"
    and "get_holiday_date ''halloween'' y = Inr (Some (ymd2ord y 10 31))"
    and "get_holiday_date ''july_4th'' y = Inr (Some (ymd2ord y 7 4))"
  using assms by (simp_all add: get_holiday_date_def date_def days_in_month_def)

lemma unknown_holiday:
  assumes "holiday \<notin> {''thanksgiving'', ''christmas'', ''halloween'', ''easter'', ''july_4th''}"
  shows "get_holiday_date holiday y = Inr None"
  using assms by (simp add: get_holiday_date_def)

lemma holiday_examples:
  "get_holiday_date ''thanksgiving'' 2024 = Inr (Some (ymd2ord 2024 11 28))"
  "get_holiday_date ''easter'' 2024 = Inr (Some (ymd2ord 2024 3 31))"
  "get_holiday_date ''easter'' 2025 = Inr (Some (ymd2ord 2025 4 20))"
  by code_simp+

text \<open>
  Claim C9. For a year of the calendar (1 to 9999, the years a \<^verbatim>\<open>date\<close> can hold),
  \<open>get_holiday_date\<close> returns: for \<open>thanksgiving\<close> the fourth Thursday of November, that
  is the Thursday among November 22 to 28; for \<open>easter\<close> the month and day of the
  Anonymous Gregorian computus; for \<open>christmas\<close> December 25, for \<open>halloween\<close> October 31
  and for \<open>july_4th\<close> July 4. For a name outside these five it returns \<^verbatim>\<open>None\<close>, in any
  year. In 2024 Thanksgiving is November 28 and Easter March 31; in 2025 Easter is
  April 20.
\<close>

theorem get_holiday_date_calendar:
  "(1 \<le> year \<and> year \<le> 9999 \<longrightarrow>
      (\<exists>d. 22 \<le> d \<and> d \<le> 28
          \<and> get_holiday_date ''thanksgiving'' year = Inr (Some (ymd2ord year 11 d))
          \<and> weekday (ymd2ord year 11 d) = 3)
      \<and> get_holiday_date ''easter'' year
           = Inr (Some (ymd2ord year (fst (anonymous_gregorian year)) (snd (anonymous_gregorian year))))
      \<and> get_holiday_date ''christmas'' year = Inr (Some (ymd2ord year 12 25))
      \<and> get_holiday_date ''halloween'' year = Inr (Some (ymd2ord year 10 31))
      \<and> get_holiday_date ''july_4th'' year = Inr (Some (ymd2ord year 7 4)))
   \<and> (holiday \<notin> {''thanksgiving'', ''christmas'', ''halloween'', ''easter'', ''july_4th''}
        \<longrightarrow> get_holiday_date holiday year = Inr None)
   \<and> get_holiday_date ''thanksgiving'' 2024 = Inr (Some (ymd2ord 2024 11 28))
   \<and> get_holiday_date ''easter'' 2024 = Inr (Some (ymd2ord 2024 3 31))
   \<and> get_holiday_date ''easter'' 2025 = Inr (Some (ymd2ord 2025 4 20))"
proof (intro conjI impI)
  assume y: "1 \<le> year \<and> year \<le> 9999"
  then have y1: "1 \<le> year" and y2: "year \<le> 9999" by simp_all
  show "\<exists>d. 22 \<le> d \<and> d \<le> 28
          \<and> get_holiday_date ''thanksgiving'' year = Inr (Some (ymd2ord year 11 d))
          \<and> weekday (ymd2ord year 11 d) = 3"
    by (rule thanksgiving_fourth_thursday[OF y1 y2])
  show "get_holiday_date ''easter'' year
           = Inr (Some (ymd2ord year (fst (anonymous_gregorian year)) (snd (anonymous_gregorian year))))"
    by (rule easter_sunday[OF y1 y2, THEN conjunct1])
  show "get_holiday_date ''christmas'' year = Inr (Some (ymd2ord year 12 25))"
    by (rule fixed_holidays(1)[OF y1 y2])
  show "get_holiday_date ''halloween'' year = Inr (Some (ymd2ord year 10 31))"
    by (rule fixed_holidays(2)[OF y1 y2])
  show "get_holiday_date ''july_4th'' year = Inr (Some (ymd2ord year 7 4))"
    by (rule fixed_holidays(3)[OF y1 y2])
next
  assume "holiday \<notin> {''thanksgiving'', ''christmas'', ''halloween'', ''easter'', ''july_4th''}"
  then show "get_holiday_date holiday year = Inr None"
    by (rule unknown_holiday)
next
  show "get_holiday_date ''thanksgiving'' 2024 = Inr (Some (ymd2ord 2024 11 28))"
    by (rule holiday_examples(1))
  show "get_holiday_date ''easter'' 2024 = Inr (Some (ymd2ord 2024 3 31))"
    by (rule holiday_examples(2))
  show "get_holiday_date ''easter'' 2025 = Inr (Some (ymd2ord 2025 4 20))"
    by (rule holiday_examples(3))
qed

theorem get_holiday_date_calendar_witness:
  "(1::int) \<le> 2024 \<and> (2024::int) \<le> 9999
   \<and> ''new_year'' \<notin> {''thanksgiving'', ''christmas'', ''halloween'', ''easter'', ''july_4th''}
   \<and> get_holiday_date ''christmas'' 2024 = Inr (Some (ymd2ord 2024 12 25))
   \<and> get_holiday_date ''easter'' 2024
        = Inr (Some (ymd2ord 2024 (fst (anonymous_gregorian 2024)) (snd (anonymous_gregorian 2024))))
   \<and> get_holiday_date ''new_year'' 2024 = Inr None"
proof -
  have range: "(1::int) \<le> 2024 \<and> (2024::int) \<le> 9999" by simp
  have other: "''new_year'' \<notin> {''thanksgiving'', ''christmas'', ''halloween'', ''easter'', ''july_4th''}"
    by simp
  note inst = get_holiday_date_calendar[of 2024 "''new_year''"]
  from inst range have "get_holiday_date ''christmas'' 2024 = Inr (Some (ymd2ord 2024 12 25))"
    and "get_holiday_date ''easter'' 2024
        = Inr (Some (ymd2ord 2024 (fst (anonymous_gregorian 2024)) (snd (anonymous_gregorian 2024))))"
    by blast+
  moreover from inst other have "get_holiday_date ''new_year'' 2024 = Inr None"
    by blast
  ultimately show ?thesis using range other by blast
qed

section \<open>Repurchase prediction\<close>

lemma parse_date_inline:
  assumes "last_str \<noteq> []"
  shows "(if CHR ''T'' \<in> set last_str then fromisoformat lib (replace_Z last_str) else strptime_ymd lib last_str)
           = parse_date lib last_str"
  using assms by (simp add: parse_date_def)

lemma parse_date_nonempty: "parse_date lib last_str = Some d \<Longrightarrow> last_str \<noteq> []"
  by (auto simp: parse_date_def)

lemma predict_resolved:
  "predict_repurchase_date lib db now product_id stats_arg
     = predict_repurchase_date lib db now product_id
         (case stats_arg of None \<Rightarrow> get_product_statistics db product_id | Some s \<Rightarrow> Some s)
   \<or> (stats_arg = None \<and> get_product_statistics db product_id = None)"
  by (cases stats_arg; cases "get_product_statistics db product_id")
     (simp_all add: predict_repurchase_date_def)




lemma predict_known:
  assumes "(case stats_arg of None \<Rightarrow> get_product_statistics db product_id | Some s \<Rightarrow> Some s) = Some s"
    and "2 \<le> sv_total_purchases s"
    and "sv_avg_days_between_purchases s = Some avg" "avg \<noteq> 0"
    and "sv_last_purchase_date s = Some last_str"
    and "parse_date lib last_str = Some (naive t)"
    and "span_in_range avg" "day_in_range (t + avg)"
    and "span_in_range (sd * buffer_multiplier (sv_category_type s))"
    and "day_in_range (t + avg - sd * buffer_multiplier (sv_category_type s))"
    and "sd = (case sv_std_dev_days s of None \<Rightarrow> 0 | Some x \<Rightarrow> x)"
  shows "predict_repurchase_date lib db now product_id stats_arg
           = Inr \<lparr>rp_product_id = product_id,
                   rp_description = sv_description s,
                   rp_category = sv_category_type s,
                   rp_predicted_date =
                     Some (naive (t + avg - sd * buffer_multiplier (sv_category_type s))),
                   rp_days_until =
                     Some \<lfloor>t + avg - sd * buffer_multiplier (sv_category_type s) - now\<rfloor>,
                   rp_urgency = py_round_to
                     (compute_urgency \<lfloor>t + avg - sd * buffer_multiplier (sv_category_type s) - now\<rfloor>
                        (sv_category_type s)) 2,
                   rp_urgency_label = get_urgency_label
                     (compute_urgency \<lfloor>t + avg - sd * buffer_multiplier (sv_category_type s) - now\<rfloor>
                        (sv_category_type s)),
                   rp_confidence = py_round_to (compute_confidence (sv_total_purchases s) avg sd) 2,
                   rp_last_purchase_date = Some last_str,
                   rp_avg_days_between = Some (py_round_to avg 1)\<rparr>"
proof -
  define m where "m = buffer_multiplier (sv_category_type s)"
  have ne: "last_str \<noteq> []" by (rule parse_date_nonempty[OF assms(6)])
  have p: "(if CHR ''T'' \<in> set last_str then fromisoformat lib (replace_Z last_str) else strptime_ymd lib last_str)
             = Some (naive t)"
    using parse_date_inline[OF ne] assms(6) by simp
  have tr: "truthy_real (Some avg)" "truthy_str (Some last_str)"
    using assms(4) ne by (simp_all add: truthy_real_def truthy_str_def)
  have td1: "timedelta_days avg = Inr avg" using assms(7) by (simp add: timedelta_days_def)
  have sh1: "datetime_shift (naive t) avg = Inr (naive (t + avg))"
    using assms(8) by (simp add: datetime_shift_def naive_def)
  have td2: "timedelta_days (sd * m) = Inr (sd * m)"
    using assms(9) by (simp add: timedelta_days_def m_def)
  have sh2: "datetime_shift (naive (t + avg)) (- (sd * m)) = Inr (naive (t + avg - sd * m))"
    using assms(10) by (simp add: datetime_shift_def naive_def m_def)
  have df: "datetime_diff (naive (t + avg - sd * m)) (naive now) = Inr (t + avg - sd * m - now)"
    by (simp add: datetime_diff_def naive_def)
  have sd: "(case sv_std_dev_days s of None \<Rightarrow> 0 | Some x \<Rightarrow> x) = sd" using assms(11) by simp
  have two: "\<not> sv_total_purchases s < 2" using assms(2) by simp
  show ?thesis
    unfolding predict_repurchase_date_def Let_def assms(1) option.case if_not_P[OF two]
      assms(3) assms(5) option.sel sd m_def[symmetric]
    by (simp only: tr p td1 sh1 td2 sh2 df not_True_eq_False simp_thms if_False option.case sum.case)
qed







section \<open>Urgency of a repurchase\<close>

lemma predict_urgency_of_days:
  assumes "predict_repurchase_date lib db now product_id stats_arg = Inr r"
    and "rp_days_until r = Some d"
  shows "rp_urgency r = py_round_to (compute_urgency d (rp_category r)) 2"
    and "rp_urgency_label r = get_urgency_label (compute_urgency d (rp_category r))"
  using assms unfolding predict_repurchase_date_def Let_def no_prediction_def
  by (auto split: option.splits if_splits sum.splits)

lemma round_to_cents:
  "py_round_to 0 2 = 0" "py_round_to 1 2 = 1" "py_round_to (9 / 10) 2 = 9 / 10"
  "py_round_to (3 / 5) 2 = 3 / 5" "py_round_to (13 / 14) 2 = 93 / 100"
  by (simp_all add: py_round_to_def py_round_def)

text \<open>A product bought every 7 days without deviation, last on 2024-01-15 (day 738900),
  asked about \<open>d\<close> days before day 738907: the predictor answers with \<open>days_until = d\<close>,
  so every integer \<open>days_until\<close> and every category occur.\<close>

lemma sample_prediction:
  fixes d :: int and category :: "string option"
  defines "s \<equiv> \<lparr>sv_total_purchases = 3, sv_avg_days_between_purchases = Some 7,
                  sv_std_dev_days = Some 0, sv_last_purchase_date = Some ''2024-01-15'',
                  sv_category_type = category, sv_description = Some ''Whole milk''\<rparr>"
  shows "predict_repurchase_date basic_parsers sample_db (738907 - real_of_int d) ''milk'' (Some s)
         = Inr \<lparr>rp_product_id = ''milk'', rp_description = Some ''Whole milk'',
                 rp_category = category, rp_predicted_date = Some (naive 738907),
                 rp_days_until = Some d,
                 rp_urgency = py_round_to (compute_urgency d category) 2,
                 rp_urgency_label = get_urgency_label (compute_urgency d category),
                 rp_confidence = py_round_to (compute_confidence 3 7 0) 2,
                 rp_last_purchase_date = Some ''2024-01-15'',
                 rp_avg_days_between = Some (py_round_to 7 1)\<rparr>"
proof -
  have p: "parse_date basic_parsers ''2024-01-15'' = Some (naive 738900)" by code_simp
  have r: "(case Some s of None \<Rightarrow> get_product_statistics sample_db ''milk'' | Some s \<Rightarrow> Some s)
             = Some s"
    by simp
  have fl: "\<lfloor>738900 + 7 - 0 * buffer_multiplier (sv_category_type s) - (738907 - real_of_int d)\<rfloor> = d"
    by simp
  have k: "predict_repurchase_date basic_parsers sample_db (738907 - real_of_int d) ''milk'' (Some s)
         = Inr \<lparr>rp_product_id = ''milk'',
                 rp_description = sv_description s,
                 rp_category = sv_category_type s,
                 rp_predicted_date =
                   Some (naive (738900 + 7 - 0 * buffer_multiplier (sv_category_type s))),
                 rp_days_until =
                   Some \<lfloor>738900 + 7 - 0 * buffer_multiplier (sv_category_type s)
                          - (738907 - real_of_int d)\<rfloor>,
                 rp_urgency = py_round_to
                   (compute_urgency \<lfloor>738900 + 7 - 0 * buffer_multiplier (sv_category_type s)
                                      - (738907 - real_of_int d)\<rfloor>
                      (sv_category_type s)) 2,
                 rp_urgency_label = get_urgency_label
                   (compute_urgency \<lfloor>738900 + 7 - 0 * buffer_multiplier (sv_category_type s)
                                      - (738907 - real_of_int d)\<rfloor>
                      (sv_category_type s)),
                 rp_confidence = py_round_to (compute_confidence (sv_total_purchases s) 7 0) 2,
                 rp_last_purchase_date = Some ''2024-01-15'',
                 rp_avg_days_between = Some (py_round_to 7 1)\<rparr>"
    by (rule predict_known[OF r, where avg = 7 and last_str = "''2024-01-15''" and t = 738900
          and sd = 0 and lib = basic_parsers])
       (simp_all add: s_def p span_in_range_def day_in_range_def)
  show ?thesis unfolding k fl by (simp add: s_def)
qed

text \<open>
  Claim C5, as the code has it. Let \<open>score\<close> be 1 for a negative \<open>days_until\<close>, 0.9 for 0,
  \<open>1 - days_until / 14\<close> from 1 to 14 and 0 beyond 14, multiplied by 1.2 and capped at 1
  when the category is \<open>routine\<close> and the value is positive. Whenever
  \<open>predict_repurchase_date\<close> returns a prediction with a \<open>days_until\<close>, the urgency it
  returns is \<open>score\<close> rounded to two decimals, and the label it returns is the label of the
  unrounded \<open>score\<close>. So a negative \<open>days_until\<close> gives exactly 1, 14 and more give exactly
  0, and 0 gives exactly 0.9 outside \<open>routine\<close>.
\<close>

theorem predicted_urgency_piecewise:
  assumes "predict_repurchase_date lib db now product_id stats_arg = Inr r"
    and "rp_days_until r = Some days_until"
  defines "base \<equiv> (if days_until < 0 then 1 else if days_until = 0 then 9 / 10
                     else if 1 \<le> days_until \<and> days_until \<le> 14 then 1 - real_of_int days_until / 14
                     else 0)"
  defines "score \<equiv> (if rp_category r = Some ''routine'' \<and> base > 0
                      then min 1 (base * (12 / 10)) else base)"
  shows "rp_urgency r = py_round_to score 2
       \<and> rp_urgency_label r = get_urgency_label score
       \<and> (days_until < 0 \<longrightarrow> rp_urgency r = 1)
       \<and> (days_until = 0 \<and> rp_category r \<noteq> Some ''routine'' \<longrightarrow> rp_urgency r = 9 / 10)
       \<and> (14 \<le> days_until \<longrightarrow> rp_urgency r = 0)"
proof -
  have same: "(if days_until < 0 then 1 else if days_until = 0 then 9 / 10
               else if days_until \<le> 14 then 1 - real_of_int days_until / 14 else (0::real)) = base"
    unfolding base_def by auto
  have u: "compute_urgency days_until (rp_category r) = score"
    unfolding compute_urgency_def Let_def same score_def by (rule refl)
  have c1: "rp_urgency r = py_round_to score 2"
    using predict_urgency_of_days(1)[OF assms(1,2)] unfolding u .
  have c2: "rp_urgency_label r = get_urgency_label score"
    using predict_urgency_of_days(2)[OF assms(1,2)] unfolding u .
  have c3: "days_until < 0 \<longrightarrow> rp_urgency r = 1"
    unfolding c1 score_def base_def by (simp add: round_to_cents)
  have c4: "days_until = 0 \<and> rp_category r \<noteq> Some ''routine'' \<longrightarrow> rp_urgency r = 9 / 10"
    unfolding c1 score_def base_def by (simp add: round_to_cents)
  have c5: "14 \<le> days_until \<longrightarrow> rp_urgency r = 0"
    unfolding c1 score_def base_def by (auto simp: round_to_cents)
  show ?thesis by (intro conjI c1 c2 c3 c4 c5)
qed

theorem predicted_urgency_piecewise_witness:
  "map_sum id (\<lambda>r. (rp_days_until r, rp_category r, rp_urgency r, rp_urgency_label r))
     (predict_repurchase_date basic_parsers sample_db 738900 ''milk''
        (Some \<lparr>sv_total_purchases = 3, sv_avg_days_between_purchases = Some 7,
                sv_std_dev_days = Some 0, sv_last_purchase_date = Some ''2024-01-15'',
                sv_category_type = Some ''routine'', sv_description = Some ''Whole milk''\<rparr>))
     = Inr (Some 7, Some ''routine'', 3 / 5, ''medium'')
   \<and> map_sum id (\<lambda>r. (rp_days_until r, rp_category r, rp_urgency r, rp_urgency_label r))
     (predict_repurchase_date basic_parsers sample_db 738908 ''milk''
        (Some \<lparr>sv_total_purchases = 3, sv_avg_days_between_purchases = Some 7,
                sv_std_dev_days = Some 0, sv_last_purchase_date = Some ''2024-01-15'',
                sv_category_type = Some ''regular'', sv_description = Some ''Whole milk''\<rparr>))
     = Inr (Some (- 1), Some ''regular'', 1, ''critical'')
   \<and> map_sum id (\<lambda>r. (rp_days_until r, rp_category r, rp_urgency r, rp_urgency_label r))
     (predict_repurchase_date basic_parsers sample_db 738893 ''milk''
        (Some \<lparr>sv_total_purchases = 3, sv_avg_days_between_purchases = Some 7,
                sv_std_dev_days = Some 0, sv_last_purchase_date = Some ''2024-01-15'',
                sv_category_type = Some ''routine'', sv_description = Some ''Whole milk''\<rparr>))
     = Inr (Some 14, Some ''routine'', 0, ''low'')"
proof -
  let ?sa = "\<lparr>sv_total_purchases = 3, sv_avg_days_between_purchases = Some 7,
                sv_std_dev_days = Some 0, sv_last_purchase_date = Some ''2024-01-15'',
                sv_category_type = Some ''routine'', sv_description = Some ''Whole milk''\<rparr>"
  let ?ra = "\<lparr>rp_product_id = ''milk'', rp_description = Some ''Whole milk'',
                 rp_category = Some ''routine'', rp_predicted_date = Some (naive 738907),
                 rp_days_until = Some 7,
                 rp_urgency = py_round_to (compute_urgency 7 (Some ''routine'')) 2,
                 rp_urgency_label = get_urgency_label (compute_urgency 7 (Some ''routine'')),
                 rp_confidence = py_round_to (compute_confidence 3 7 0) 2,
                 rp_last_purchase_date = Some ''2024-01-15'',
                 rp_avg_days_between = Some (py_round_to 7 1)\<rparr>"
  have a: "predict_repurchase_date basic_parsers sample_db 738900 ''milk'' (Some ?sa) = Inr ?ra"
    using sample_prediction[of 7 "Some ''routine''"] by simp
  have da: "rp_days_until ?ra = Some 7" by simp
  have ua: "map_sum id (\<lambda>r. (rp_days_until r, rp_category r, rp_urgency r, rp_urgency_label r))
     (predict_repurchase_date basic_parsers sample_db 738900 ''milk'' (Some ?sa))
     = Inr (Some 7, Some ''routine'', 3 / 5, ''medium'')"
    using predicted_urgency_piecewise[OF a da] unfolding a
    by (simp add: round_to_cents get_urgency_label_def)
  let ?sb = "\<lparr>sv_total_purchases = 3, sv_avg_days_between_purchases = Some 7,
                sv_std_dev_days = Some 0, sv_last_purchase_date = Some ''2024-01-15'',
                sv_category_type = Some ''regular'', sv_description = Some ''Whole milk''\<rparr>"
  let ?rb = "\<lparr>rp_product_id = ''milk'', rp_description = Some ''Whole milk'',
                 rp_category = Some ''regular'', rp_predicted_date = Some (naive 738907),
                 rp_days_until = Some (- 1),
                 rp_urgency = py_round_to (compute_urgency (- 1) (Some ''regular'')) 2,
                 rp_urgency_label = get_urgency_label (compute_urgency (- 1) (Some ''regular'')),
                 rp_confidence = py_round_to (compute_confidence 3 7 0) 2,
                 rp_last_purchase_date = Some ''2024-01-15'',
                 rp_avg_days_between = Some (py_round_to 7 1)\<rparr>"
  have b: "predict_repurchase_date basic_parsers sample_db 738908 ''milk'' (Some ?sb) = Inr ?rb"
    using sample_prediction[of "- 1" "Some ''regular''"] by simp
  have db: "rp_days_until ?rb = Some (- 1)" by simp
  have ub: "map_sum id (\<lambda>r. (rp_days_until r, rp_category r, rp_urgency r, rp_urgency_label r))
     (predict_repurchase_date basic_parsers sample_db 738908 ''milk'' (Some ?sb))
     = Inr (Some (- 1), Some ''regular'', 1, ''critical'')"
    using predicted_urgency_piecewise[OF b db] unfolding b
    by (simp add: round_to_cents get_urgency_label_def)
  let ?sc = "\<lparr>sv_total_purchases = 3, sv_avg_days_between_purchases = Some 7,
                sv_std_dev_days = Some 0, sv_last_purchase_date = Some ''2024-01-15'',
                sv_category_type = Some ''routine'', sv_description = Some ''Whole milk''\<rparr>"
  let ?rc = "\<lparr>rp_product_id = ''milk'', rp_description = Some ''Whole milk'',
                 rp_category = Some ''routine'', rp_predicted_date = Some (naive 738907),
                 rp_days_until = Some 14,
                 rp_urgency = py_round_to (compute_urgency 14 (Some ''routine'')) 2,
                 rp_urgency_label = get_urgency_label (compute_urgency 14 (Some ''routine'')),
                 rp_confidence = py_round_to (compute_confidence 3 7 0) 2,
                 rp_last_purchase_date = Some ''2024-01-15'',
                 rp_avg_days_between = Some (py_round_to 7 1)\<rparr>"
  have c: "predict_repurchase_date basic_parsers sample_db 738893 ''milk'' (Some ?sc) = Inr ?rc"
    using sample_prediction[of 14 "Some ''routine''"] by simp
  have dc: "rp_days_until ?rc = Some 14" by simp
  have uc: "map_sum id (\<lambda>r. (rp_days_until r, rp_category r, rp_urgency r, rp_urgency_label r))
     (predict_repurchase_date basic_parsers sample_db 738893 ''milk'' (Some ?sc))
     = Inr (Some 14, Some ''routine'', 0, ''low'')"
    using predicted_urgency_piecewise[OF c dc] unfolding c
    by (simp add: round_to_cents get_urgency_label_def)
  show ?thesis by (intro conjI ua ub uc)
qed

text \<open>The claim as worded gives the urgency as \<open>1 - days_until / 14\<close> exactly. One day
  ahead, outside \<open>routine\<close>, that is 13/14; the predictor returns 0.93.\<close>

theorem predicted_urgency_rounded_counterexample:
  "map_sum id rp_days_until
     (predict_repurchase_date basic_parsers sample_db 738906 ''milk''
        (Some \<lparr>sv_total_purchases = 3, sv_avg_days_between_purchases = Some 7,
                sv_std_dev_days = Some 0, sv_last_purchase_date = Some ''2024-01-15'',
                sv_category_type = Some ''regular'', sv_description = Some ''Whole milk''\<rparr>))
     = Inr (Some 1)
   \<and> map_sum id rp_urgency
     (predict_repurchase_date basic_parsers sample_db 738906 ''milk''
        (Some \<lparr>sv_total_purchases = 3, sv_avg_days_between_purchases = Some 7,
                sv_std_dev_days = Some 0, sv_last_purchase_date = Some ''2024-01-15'',
                sv_category_type = Some ''regular'', sv_description = Some ''Whole milk''\<rparr>))
     = Inr (93 / 100)
   \<and> (93 / 100 :: real) \<noteq> 1 - 1 / 14"
proof -
  have cu: "compute_urgency 1 (Some ''regular'') = 13 / 14" by (simp add: compute_urgency_def)
  have now: "738907 - real_of_int 1 = 738906" by simp
  note p = sample_prediction[of 1 "Some ''regular''", unfolded cu round_to_cents now]
  show ?thesis unfolding p by simp
qed

section \<open>The consumption-rate estimator\<close>

lemma ewma_weights_nth: "j < n \<Longrightarrow> ewma_weights n ! j = (1 / 2) ^ (n - 1 - j)"
  by (simp add: ewma_weights_def rev_nth)

lemma length_ewma_weights: "length (ewma_weights n) = n"
  by (simp add: ewma_weights_def)

lemma weighted_sum_index:
  "sum_list (map (\<lambda>(w, v). w * real_of_int v) (zip (ewma_weights (length xs)) xs))
     = (\<Sum>j<length xs. (1 / 2) ^ (length xs - 1 - j) * real_of_int (xs ! j))"
proof -
  let ?zs = "map (\<lambda>(w, v). w * real_of_int v) (zip (ewma_weights (length xs)) xs)"
  have len: "length ?zs = length xs" by (simp add: length_ewma_weights)
  have "sum_list ?zs = (\<Sum>j = 0..<length ?zs. ?zs ! j)" by (rule sum_list_sum_nth)
  also have "\<dots> = (\<Sum>j = 0..<length xs. (1 / 2) ^ (length xs - 1 - j) * real_of_int (xs ! j))"
    unfolding len by (rule sum.cong) (simp_all add: length_ewma_weights ewma_weights_nth)
  finally show ?thesis by (simp add: lessThan_atLeast0)
qed

lemma weight_total_index:
  "sum_list (ewma_weights n) = (\<Sum>j<n. (1 / 2) ^ (n - 1 - j))"
proof -
  have "sum_list (ewma_weights n) = (\<Sum>j = 0..<length (ewma_weights n). ewma_weights n ! j)"
    by (rule sum_list_sum_nth)
  also have "\<dots> = (\<Sum>j = 0..<n. (1 / 2) ^ (n - 1 - j))"
    unfolding length_ewma_weights by (rule sum.cong) (simp_all add: ewma_weights_nth)
  finally show ?thesis by (simp add: lessThan_atLeast0)
qed

lemma ewma_is_halving_average:
  "sum_list (map (\<lambda>(w, v). w * real_of_int v) (zip (ewma_weights (length xs)) xs))
     / sum_list (ewma_weights (length xs)) = halving_weighted_average xs"
  unfolding halving_weighted_average_def weighted_sum_index weight_total_index by (rule refl)

lemma consumption_intervals_naive:
  assumes "map (\<lambda>e. parse_date lib (ev_event_date e)) events = map (\<lambda>t. Some (naive t)) ts"
  shows "consumption_intervals lib events = Inr (positive_intervals ts)"
  using assms
proof (induction events arbitrary: ts)
  case Nil
  then show ?case by (simp add: positive_intervals_def whole_day_gaps_def)
next
  case (Cons e es)
  show ?case
  proof (cases es)
    case Nil
    with Cons.prems obtain t where "ts = [t]" by (cases ts) auto
    with Nil show ?thesis by (simp add: positive_intervals_def whole_day_gaps_def)
  next
    case (Cons e2 es2)
    with Cons.prems obtain p c ts' where ts: "ts = p # c # ts'"
      by (cases ts; cases "tl ts") auto
    from Cons.prems have pp: "parse_date lib (ev_event_date e) = Some (naive p)"
      and pc: "parse_date lib (ev_event_date e2) = Some (naive c)"
      and rest: "map (\<lambda>e. parse_date lib (ev_event_date e)) es = map (\<lambda>t. Some (naive t)) (c # ts')"
      unfolding ts Cons by simp_all
    have diff: "datetime_diff (naive c) (naive p) = Inr (c - p)"
      by (simp add: datetime_diff_def naive_def)
    have ih: "consumption_intervals lib (e2 # es2) = Inr (positive_intervals (c # ts'))"
      using Cons.IH[OF rest] unfolding Cons .
    show ?thesis
      unfolding ts Cons using pp pc diff ih
      by (simp add: positive_intervals_def whole_day_gaps_def Let_def)
  qed
qed


lemma sum_list_index: "sum_list (map f xs) = (\<Sum>j<length xs. f (xs ! j))"
proof -
  have "sum_list (map f xs) = (\<Sum>j = 0..<length (map f xs). map f xs ! j)"
    by (rule sum_list_sum_nth)
  also have "\<dots> = (\<Sum>j = 0..<length xs. f (xs ! j))"
    by (rule sum.cong) simp_all
  finally show ?thesis by (simp add: lessThan_atLeast0)
qed

lemma stdev_sample_deviation:
  assumes "2 \<le> length xs"
  shows "stdev (map real_of_int xs) = Inr (sample_deviation xs)"
proof -
  have m: "sum_list (map real_of_int xs) / real (length xs) = mean_of xs"
    unfolding mean_of_def sum_list_index by (rule refl)
  have ss: "sum_list (map (\<lambda>x. (x - mean_of xs)\<^sup>2) (map real_of_int xs))
              = (\<Sum>j<length xs. (real_of_int (xs ! j) - mean_of xs)\<^sup>2)"
    using sum_list_index[of "\<lambda>x. (real_of_int x - mean_of xs)\<^sup>2" xs]
    by (simp add: comp_def)
  have "stdev (map real_of_int xs)
          = Inr (sqrt (sum_list (map (\<lambda>x. (x - mean_of xs)\<^sup>2) (map real_of_int xs))
                       / (real (length xs) - 1)))"
    using assms unfolding stdev_def Let_def by (simp add: m)
  then show ?thesis
    unfolding ss sample_deviation_def .
qed

lemma positive_intervals_length:
  assumes "positive_intervals ts \<noteq> []"
  shows "2 \<le> length ts"
proof (rule ccontr)
  assume "\<not> 2 \<le> length ts"
  then have "zip ts (tl ts) = []" by (cases ts; cases "tl ts") auto
  with assms show False by (simp add: positive_intervals_def whole_day_gaps_def)
qed

lemma calculate_consumption_rate_naive:
  assumes parse: "map (\<lambda>e. parse_date lib (ev_event_date e)) events = map (\<lambda>t. Some (naive t)) ts"
    and ne: "positive_intervals ts \<noteq> []"
  defines "ivs \<equiv> positive_intervals ts"
  defines "sd \<equiv> (if 1 < length ivs then sample_deviation ivs else 0)"
  shows "calculate_consumption_rate lib events =
           Inr \<lparr>days_between = Some (halving_weighted_average ivs),
                std_dev = sd,
                confidence = min 1 (real (length ivs) / 10)
                  * (if halving_weighted_average ivs > 0
                     then 1 - min 1 (sd / halving_weighted_average ivs) else 0),
                sample_size = int (length ivs)\<rparr>"
proof -
  have "length events = length ts" using parse by (metis length_map)
  then have len: "\<not> length events < 2" using positive_intervals_length[OF ne] by simp
  have iv: "consumption_intervals lib events = Inr ivs"
    unfolding ivs_def by (rule consumption_intervals_naive[OF parse])
  have ne': "ivs \<noteq> []" using ne by (simp add: ivs_def)
  have sdv: "(if length ivs > 1 then stdev (map real_of_int ivs) else Inr 0) = Inr sd"
    unfolding sd_def using stdev_sample_deviation[of ivs] by simp
  show ?thesis
    unfolding calculate_consumption_rate_def Let_def
    by (simp only: len iv ne' sdv ewma_is_halving_average if_False sum.case)
qed

lemma sample_dates_20_10_10:
  "map (\<lambda>e. parse_date basic_parsers (ev_event_date e))
     (map (order_placed_on ''P'') [''2024-01-01'', ''2024-01-21'', ''2024-01-31'', ''2024-02-10''])
   = map (\<lambda>t. Some (naive t)) [738886, 738906, 738916, 738926]"
  by code_simp

lemma sample_intervals_20_10_10: "positive_intervals [738886, 738906, 738916, 738926] = [20, 10, 10]"
  by (simp add: positive_intervals_def whole_day_gaps_def)

lemma halving_average_20_10_10: "halving_weighted_average [20, 10, 10] = 80 / 7"
  by (simp add: halving_weighted_average_def lessThan_nat_numeral lessThan_Suc)

text \<open>
  Claim C2. When the event dates parse to naive timestamps and the positive whole-day gaps
  between consecutive events, oldest first, are \<open>i\<^sub>1, \<dots>, i\<^sub>n\<close> with \<open>n \<ge> 1\<close>, the estimator
  returns as \<open>days_between\<close> the average of the gaps in which \<open>i\<^sub>j\<close> has weight
  \<open>0.5 ^ (n - j)\<close>. For the gaps 20, 10, 10 this is
  \<open>(20 * 0.25 + 10 * 0.5 + 10 * 1) / 1.75 = 80 / 7\<close>, which rounds to 11.43.
\<close>

theorem days_between_halving_average:
  assumes "map (\<lambda>e. parse_date lib (ev_event_date e)) events = map (\<lambda>t. Some (naive t)) ts"
    and "positive_intervals ts \<noteq> []"
  shows "map_sum id days_between (calculate_consumption_rate lib events)
           = Inr (Some (halving_weighted_average (positive_intervals ts)))
       \<and> halving_weighted_average [20, 10, 10] = (20 * (1 / 4) + 10 * (1 / 2) + 10 * 1) / (7 / 4)
       \<and> \<bar>halving_weighted_average [20, 10, 10] - 1143 / 100\<bar> < 1 / 200"
proof -
  have "map_sum id days_between (calculate_consumption_rate lib events)
           = Inr (Some (halving_weighted_average (positive_intervals ts)))"
    unfolding calculate_consumption_rate_naive[OF assms] by simp
  then show ?thesis
    unfolding halving_average_20_10_10 by simp
qed

theorem days_between_halving_average_witness:
  "map (\<lambda>e. parse_date basic_parsers (ev_event_date e))
     (map (order_placed_on ''P'') [''2024-01-01'', ''2024-01-21'', ''2024-01-31'', ''2024-02-10''])
     = map (\<lambda>t. Some (naive t)) [738886, 738906, 738916, 738926]
   \<and> positive_intervals [738886, 738906, 738916, 738926] = [20, 10, 10]
   \<and> map_sum id days_between
        (calculate_consumption_rate basic_parsers
           (map (order_placed_on ''P'') [''2024-01-01'', ''2024-01-21'', ''2024-01-31'', ''2024-02-10'']))
        = Inr (Some (80 / 7))"
proof -
  have ne: "positive_intervals [738886, 738906, 738916, 738926] \<noteq> []"
    unfolding sample_intervals_20_10_10 by simp
  from days_between_halving_average[OF sample_dates_20_10_10 ne]
  have "map_sum id days_between
        (calculate_consumption_rate basic_parsers
           (map (order_placed_on ''P'') [''2024-01-01'', ''2024-01-21'', ''2024-01-31'', ''2024-02-10'']))
        = Inr (Some (80 / 7))"
    unfolding sample_intervals_20_10_10 halving_average_20_10_10 by (rule conjunct1)
  then show ?thesis
    using sample_dates_20_10_10 sample_intervals_20_10_10 by (intro conjI)
qed

lemma sample_dates_1_3_5:
  "map (\<lambda>e. parse_date basic_parsers (ev_event_date e))
     (map (order_placed_on ''P'') [''2024-01-01'', ''2024-01-02'', ''2024-01-05'', ''2024-01-10''])
   = map (\<lambda>t. Some (naive t)) [738886, 738887, 738890, 738895]"
  by code_simp

lemma sample_intervals_1_3_5: "positive_intervals [738886, 738887, 738890, 738895] = [1, 3, 5]"
  by (simp add: positive_intervals_def whole_day_gaps_def)

lemma sample_deviation_1_3_5: "sample_deviation [1, 3, 5] = 2"
proof -
  have "mean_of [1, 3, 5] = 3"
    by (simp add: mean_of_def lessThan_nat_numeral lessThan_Suc)
  then have "sample_deviation [1, 3, 5] = sqrt 4"
    by (simp add: sample_deviation_def lessThan_nat_numeral lessThan_Suc)
  then show ?thesis by simp
qed

lemma population_deviation_1_3_5: "population_deviation [1, 3, 5] \<noteq> 2"
proof
  assume a: "population_deviation [1, 3, 5] = 2"
  have "mean_of [1, 3, 5] = 3"
    by (simp add: mean_of_def lessThan_nat_numeral lessThan_Suc)
  then have "population_deviation [1, 3, 5] = sqrt (8 / 3)"
    by (simp add: population_deviation_def lessThan_nat_numeral lessThan_Suc)
  with a have "sqrt (8 / 3) = 2" by simp
  then have "(sqrt (8 / 3))\<^sup>2 = 2\<^sup>2" by simp
  then show False by simp
qed

lemma sample_dates_7:
  "map (\<lambda>e. parse_date basic_parsers (ev_event_date e))
     (map (order_placed_on ''P'') [''2024-01-01'', ''2024-01-08''])
   = map (\<lambda>t. Some (naive t)) [738886, 738893]"
  by code_simp

lemma sample_intervals_7: "positive_intervals [738886, 738893] = [7]"
  by (simp add: positive_intervals_def whole_day_gaps_def)

text \<open>
  Claim C3, as the code has it. When the event dates parse to naive timestamps, the
  \<open>std_dev\<close> returned is the unweighted standard deviation of the positive gaps with the
  sample divisor \<open>n - 1\<close> when there are at least two gaps, and 0 when there is exactly one.
\<close>

theorem std_dev_sample_formula:
  assumes "map (\<lambda>e. parse_date lib (ev_event_date e)) events = map (\<lambda>t. Some (naive t)) ts"
  shows "(2 \<le> length (positive_intervals ts) \<longrightarrow>
            map_sum id std_dev (calculate_consumption_rate lib events)
              = Inr (sample_deviation (positive_intervals ts)))
       \<and> (length (positive_intervals ts) = 1 \<longrightarrow>
            map_sum id std_dev (calculate_consumption_rate lib events) = Inr 0)"
proof (intro conjI impI)
  assume n: "2 \<le> length (positive_intervals ts)"
  then have ne: "positive_intervals ts \<noteq> []" by auto
  show "map_sum id std_dev (calculate_consumption_rate lib events)
          = Inr (sample_deviation (positive_intervals ts))"
    unfolding calculate_consumption_rate_naive[OF assms ne] using n by simp
next
  assume n: "length (positive_intervals ts) = 1"
  then have ne: "positive_intervals ts \<noteq> []" by auto
  show "map_sum id std_dev (calculate_consumption_rate lib events) = Inr 0"
    unfolding calculate_consumption_rate_naive[OF assms ne] using n by simp
qed

theorem std_dev_sample_formula_witness:
  "map (\<lambda>e. parse_date basic_parsers (ev_event_date e))
     (map (order_placed_on ''P'') [''2024-01-01'', ''2024-01-21'', ''2024-01-31'', ''2024-02-10''])
     = map (\<lambda>t. Some (naive t)) [738886, 738906, 738916, 738926]
   \<and> 2 \<le> length (positive_intervals [738886, 738906, 738916, 738926])
   \<and> map_sum id std_dev
        (calculate_consumption_rate basic_parsers
           (map (order_placed_on ''P'') [''2024-01-01'', ''2024-01-21'', ''2024-01-31'', ''2024-02-10'']))
        = Inr (sample_deviation [20, 10, 10])
   \<and> map (\<lambda>e. parse_date basic_parsers (ev_event_date e))
        (map (order_placed_on ''P'') [''2024-01-01'', ''2024-01-08''])
        = map (\<lambda>t. Some (naive t)) [738886, 738893]
   \<and> length (positive_intervals [738886, 738893]) = 1
   \<and> map_sum id std_dev
        (calculate_consumption_rate basic_parsers
           (map (order_placed_on ''P'') [''2024-01-01'', ''2024-01-08''])) = Inr 0"
proof -
  have n3: "2 \<le> length (positive_intervals [738886, 738906, 738916, 738926])"
    unfolding sample_intervals_20_10_10 by simp
  have n1: "length (positive_intervals [738886, 738893]) = 1"
    unfolding sample_intervals_7 by simp
  from std_dev_sample_formula[OF sample_dates_20_10_10] n3
  have a: "map_sum id std_dev
        (calculate_consumption_rate basic_parsers
           (map (order_placed_on ''P'') [''2024-01-01'', ''2024-01-21'', ''2024-01-31'', ''2024-02-10'']))
        = Inr (sample_deviation [20, 10, 10])"
    unfolding sample_intervals_20_10_10 by blast
  from std_dev_sample_formula[OF sample_dates_7] n1
  have b: "map_sum id std_dev
        (calculate_consumption_rate basic_parsers
           (map (order_placed_on ''P'') [''2024-01-01'', ''2024-01-08''])) = Inr 0"
    by blast
  show ?thesis
    using sample_dates_20_10_10 n3 a sample_dates_7 n1 b by (intro conjI)
qed

text \<open>The claim as worded, with the population divisor \<open>n\<close>, fails on four orders spaced
  1, 3 and 5 days apart: the estimator returns 2, the population formula gives the square
  root of 8/3.\<close>

theorem std_dev_not_population_counterexample:
  "consumption_intervals basic_parsers
     (map (order_placed_on ''P'') [''2024-01-01'', ''2024-01-02'', ''2024-01-05'', ''2024-01-10''])
     = Inr [1, 3, 5]
   \<and> map_sum id std_dev
        (calculate_consumption_rate basic_parsers
           (map (order_placed_on ''P'') [''2024-01-01'', ''2024-01-02'', ''2024-01-05'', ''2024-01-10'']))
        = Inr 2
   \<and> population_deviation [1, 3, 5] \<noteq> 2"
proof -
  have ne: "positive_intervals [738886, 738887, 738890, 738895] \<noteq> []"
    unfolding sample_intervals_1_3_5 by simp
  have a: "consumption_intervals basic_parsers
     (map (order_placed_on ''P'') [''2024-01-01'', ''2024-01-02'', ''2024-01-05'', ''2024-01-10''])
     = Inr [1, 3, 5]"
    using consumption_intervals_naive[OF sample_dates_1_3_5] unfolding sample_intervals_1_3_5 .
  have b: "map_sum id std_dev
        (calculate_consumption_rate basic_parsers
           (map (order_placed_on ''P'') [''2024-01-01'', ''2024-01-02'', ''2024-01-05'', ''2024-01-10'']))
        = Inr 2"
    unfolding calculate_consumption_rate_naive[OF sample_dates_1_3_5 ne] sample_intervals_1_3_5
    by (simp add: sample_deviation_1_3_5)
  show ?thesis using a b population_deviation_1_3_5 by (intro conjI)
qed

section \<open>Category overrides\<close>

text \<open>What one pass of the batch job may do to a product row: the identifier and the
  override flag stay, and a row whose identifier is outside \<open>S\<close> stays as a whole.\<close>

lemma categorize_row_rel:
  "list_all2 (\<lambda>p p'. p_product_id p' = p_product_id p
                      \<and> p_category_override p' = p_category_override p
                      \<and> (p_product_id p \<notin> {product_id} \<longrightarrow> p' = p))
     rows (fst (categorize_row config stats product_id rows))"
  unfolding categorize_row_def Let_def fst_conv list_all2_map2
  by (rule list_all2_refl) simp

lemma categorize_loop_rel:
  "list_all2 (\<lambda>p p'. p_product_id p' = p_product_id p
                      \<and> p_category_override p' = p_category_override p
                      \<and> (p_product_id p \<notin> set selected \<longrightarrow> p' = p))
     rows (fst (categorize_loop config stats selected rows changes))"
proof (induction selected arbitrary: rows changes)
  case Nil
  show ?case by (simp add: list_all2_refl)
next
  case (Cons product_id selected)
  obtain rows1 new_category where step: "categorize_row config stats product_id rows = (rows1, new_category)"
    by (cases "categorize_row config stats product_id rows")
  have first: "list_all2 (\<lambda>p p'. p_product_id p' = p_product_id p
                      \<and> p_category_override p' = p_category_override p
                      \<and> (p_product_id p \<notin> {product_id} \<longrightarrow> p' = p)) rows rows1"
    using categorize_row_rel[where rows = rows and config = config and stats = stats
        and product_id = product_id] unfolding step by simp
  define changes' where "changes' = changes(new_category := changes new_category + 1)"
  note rest = Cons.IH[where rows = rows1 and changes = changes']
  have "list_all2 (\<lambda>p p'. p_product_id p' = p_product_id p
                      \<and> p_category_override p' = p_category_override p
                      \<and> (p_product_id p \<notin> set (product_id # selected) \<longrightarrow> p' = p))
          rows (fst (categorize_loop config stats selected rows1 changes'))"
    by (rule list_all2_trans[OF _ first rest]) auto
  moreover have "categorize_loop config stats (product_id # selected) rows changes
                   = categorize_loop config stats selected rows1 changes'"
    unfolding changes'_def by (simp add: step)
  ultimately show ?case by simp
qed

lemma auto_categorize_all_rel:
  "list_all2 (\<lambda>p p'. p_product_id p' = p_product_id p
                      \<and> p_category_override p' = p_category_override p
                      \<and> (p_product_id p \<notin> set (map p_product_id
                            (filter (\<lambda>p. p_category_override p = Some 0 \<or> p_category_override p = None)
                               (products db))) \<longrightarrow> p' = p))
     (products db) (products (fst (auto_categorize_all config db)))"
proof -
  let ?sel = "map p_product_id
                (filter (\<lambda>p. p_category_override p = Some 0 \<or> p_category_override p = None) (products db))"
  have "products (fst (auto_categorize_all config db))
          = fst (categorize_loop config (product_stats db) ?sel (products db) (\<lambda>c. 0))"
    unfolding auto_categorize_all_def Let_def by (simp split: prod.splits)
  then show ?thesis
    using categorize_loop_rel[where selected = ?sel and rows = "products db"
        and config = config and stats = "product_stats db" and changes = "\<lambda>c. 0"] by simp
qed

lemma auto_categorize_all_flags:
  "map p_category_override (products (fst (auto_categorize_all config db)))
     = map p_category_override (products db)"
    and "map p_product_id (products (fst (auto_categorize_all config db)))
     = map p_product_id (products db)"
proof -
  note rel = auto_categorize_all_rel[where db = db and config = config]
  have len: "length (products (fst (auto_categorize_all config db))) = length (products db)"
    using rel by (simp add: list_all2_lengthD)
  show "map p_category_override (products (fst (auto_categorize_all config db)))
     = map p_category_override (products db)"
    using rel len by (intro nth_equalityI) (simp_all add: list_all2_conv_all_nth)
  show "map p_product_id (products (fst (auto_categorize_all config db)))
     = map p_product_id (products db)"
    using rel len by (intro nth_equalityI) (simp_all add: list_all2_conv_all_nth)
qed

lemma overridden_not_selected:
  assumes "distinct (map p_product_id rows)" "p \<in> set rows" "truthy_int (p_category_override p)"
  shows "p_product_id p \<notin> set (map p_product_id
           (filter (\<lambda>p. p_category_override p = Some 0 \<or> p_category_override p = None) rows))"
proof
  assume "p_product_id p \<in> set (map p_product_id
           (filter (\<lambda>p. p_category_override p = Some 0 \<or> p_category_override p = None) rows))"
  then obtain q where q: "q \<in> set rows" "p_product_id q = p_product_id p"
      "p_category_override q = Some 0 \<or> p_category_override q = None"
    by auto
  from assms(1) q(1,2) assms(2) have "q = p"
    by (meson distinct_map inj_onD)
  with q(3) assms(3) show False by (auto simp: truthy_int_def)
qed

lemma find_list_all2:
  assumes "list_all2 (\<lambda>x y. P y = P x \<and> (P x \<longrightarrow> y = x)) xs ys"
  shows "find P ys = find P xs"
  using assms by (induction xs ys rule: list_all2_induct) auto

lemma auto_categorize_all_keeps_overridden:
  assumes "distinct (map p_product_id (products db))"
    and "find_product db product_id = Some p" "truthy_int (p_category_override p)"
  shows "find_product (fst (auto_categorize_all config db)) product_id = Some p"
proof -
  let ?rows' = "products (fst (auto_categorize_all config db))"
  let ?sel = "set (map p_product_id
           (filter (\<lambda>p. p_category_override p = Some 0 \<or> p_category_override p = None) (products db)))"
  note rel = auto_categorize_all_rel[where db = db and config = config]
  have "list_all2 (\<lambda>p p'. p_product_id p' = p_product_id p \<and> (p_product_id p \<notin> ?sel \<longrightarrow> p' = p))
          (products db) ?rows'"
    using rel by (rule list_all2_mono) simp
  moreover have "\<forall>q\<in>set (products db). p_product_id q = product_id \<longrightarrow> p_product_id q \<notin> ?sel"
  proof (intro ballI impI)
    fix q assume q: "q \<in> set (products db)" "p_product_id q = product_id"
    from assms(2) have pin: "p \<in> set (products db)" "p_product_id p = product_id"
      unfolding find_product_def by (auto simp: find_Some_iff)
    from assms(1) q pin have "q = p" by (metis distinct_map inj_onD)
    with overridden_not_selected[OF assms(1) pin(1) assms(3)] show "p_product_id q \<notin> ?sel" by simp
  qed
  ultimately have "list_all2 (\<lambda>p p'. (p_product_id p' = product_id) = (p_product_id p = product_id)
                              \<and> (p_product_id p = product_id \<longrightarrow> p' = p)) (products db) ?rows'"
    by (auto simp: list_all2_conv_all_nth)
  then have "find (\<lambda>p. p_product_id p = product_id) ?rows'
               = find (\<lambda>p. p_product_id p = product_id) (products db)"
    by (rule find_list_all2)
  with assms(2) show ?thesis by (simp add: find_product_def)
qed

lemma find_after_update:
  assumes "find (\<lambda>p. p_product_id p = product_id) rows = Some row"
  shows "find (\<lambda>p. p_product_id p = product_id)
           (map (\<lambda>p. if p_product_id p = product_id
                      then p\<lparr>p_category_type := Some category, p_category_override := Some flag\<rparr>
                      else p) rows)
         = Some (row\<lparr>p_category_type := Some category, p_category_override := Some flag\<rparr>)"
  using assms by (induction rows) (auto split: if_splits)

lemma find_after_insert:
  assumes "find (\<lambda>p. p_product_id p = product_id) rows = None" "p_product_id new_row = product_id"
  shows "find (\<lambda>p. p_product_id p = product_id) (rows @ [new_row]) = Some new_row"
  using assms by (induction rows) (auto split: if_splits)

lemma set_product_category_row:
  assumes "set_product_category db product_id category is_override = Inr (db1, res)"
  shows "\<exists>p. find_product db1 product_id = Some p \<and> p_category_type p = Some category
             \<and> p_category_override p = Some (if is_override then 1 else 0)"
proof (cases "find_product db product_id")
  case None
  then have "find_product db1 product_id
               = Some \<lparr>p_product_id = product_id, p_description = None,
                       p_category_type = Some category,
                       p_category_override = Some (if is_override then 1 else 0)\<rparr>"
    using assms unfolding set_product_category_def find_product_def
    by (auto split: if_splits simp: find_after_insert)
  then show ?thesis by simp
next
  case (Some row)
  then have "find_product db1 product_id
               = Some (row\<lparr>p_category_type := Some category,
                            p_category_override := Some (if is_override then 1 else 0)\<rparr>)"
    using assms unfolding set_product_category_def find_product_def
    by (auto split: if_splits simp: find_after_update)
  then show ?thesis by simp
qed

lemma set_product_category_distinct:
  assumes "set_product_category db product_id category is_override = Inr (db1, res)"
    and "distinct (map p_product_id (products db))"
  shows "distinct (map p_product_id (products db1))"
proof (cases "find_product db product_id")
  case None
  then have "product_id \<notin> p_product_id ` set (products db)"
    unfolding find_product_def by (auto simp: find_None_iff)
  moreover have "products db1 = products db @
                   [\<lparr>p_product_id = product_id, p_description = None,
                     p_category_type = Some category,
                     p_category_override = Some (if is_override then 1 else 0)\<rparr>]"
    using assms(1) None unfolding set_product_category_def by (auto split: if_splits)
  ultimately show ?thesis using assms(2) by simp
next
  case (Some row)
  have ids: "map p_product_id
               (map (\<lambda>p. if p_product_id p = product_id
                          then p\<lparr>p_category_type := Some category, p_category_override := Some flag\<rparr>
                          else p) rows) = map p_product_id rows" for flag rows
    by (induction rows) auto
  have "products db1 = map (\<lambda>p. if p_product_id p = product_id
                          then p\<lparr>p_category_type := Some category,
                                 p_category_override := Some (if is_override then 1 else 0)\<rparr>
                          else p) (products db)"
    using assms(1) Some unfolding set_product_category_def by (auto split: if_splits)
  then have "map p_product_id (products db1) = map p_product_id (products db)"
    by (simp only: ids)
  then show ?thesis using assms(2) by simp
qed

lemma update_product_stats_products:
  assumes "update_product_stats lib config now product_id db = Inr (db', report)"
  shows "products db' = products db"
  using assms unfolding update_product_stats_def Let_def
  by (auto split: if_splits sum.splits)

lemma update_pantry_level_products:
  "products (fst (update_pantry_level lib config now_str stats_now product_id level db)) = products db"
proof -
  have rec: "products (fst (record_depletion_event lib config stats_now db product_id last_restocked now_str))
               = products db" for last_restocked
    unfolding record_depletion_event_def Let_def
    by (auto split: sum.splits prod.splits dest: update_product_stats_products)
  show ?thesis
    unfolding update_pantry_level_def Let_def
    by (auto split: option.splits prod.splits simp: rec[THEN arg_cong] dest: arg_cong[where f = fst])
       (metis fst_conv rec)+
qed

text \<open>
  Claim C6. In a product table whose identifiers are unique, a product whose category was
  set through \<open>set_product_category\<close> with \<open>is_override = True\<close> has that category and a set
  flag after any later run of \<open>auto_categorize_all\<close>. More generally the batch job leaves
  every row with a set flag as it is and changes no flag in any row, and neither the
  statistics recomputation nor a pantry level update writes to the product table.
\<close>

theorem override_survives_auto_categorize:
  assumes "distinct (map p_product_id (products db))"
  shows "(set_product_category db product_id category True = Inr (db_set, res) \<longrightarrow>
            (\<exists>p. find_product (fst (auto_categorize_all config db_set)) product_id = Some p
                 \<and> p_category_type p = Some category \<and> p_category_override p = Some 1))
       \<and> (find_product db product_id = Some row \<and> truthy_int (p_category_override row) \<longrightarrow>
            find_product (fst (auto_categorize_all config db)) product_id = Some row)
       \<and> map p_category_override (products (fst (auto_categorize_all config db)))
            = map p_category_override (products db)
       \<and> (update_product_stats lib config now product_id db = Inr (db_upd, report) \<longrightarrow>
            products db_upd = products db)
       \<and> products (fst (update_pantry_level lib config now_str now product_id level db)) = products db"
proof (intro conjI impI)
  assume set: "set_product_category db product_id category True = Inr (db_set, res)"
  from set_product_category_row[OF set] obtain p where p: "find_product db_set product_id = Some p"
    "p_category_type p = Some category" "p_category_override p = Some 1"
    by auto
  have dd: "distinct (map p_product_id (products db_set))"
    by (rule set_product_category_distinct[OF set assms])
  have "truthy_int (p_category_override p)" using p(3) by (simp add: truthy_int_def)
  from auto_categorize_all_keeps_overridden[OF dd p(1) this]
  show "\<exists>p. find_product (fst (auto_categorize_all config db_set)) product_id = Some p
                 \<and> p_category_type p = Some category \<and> p_category_override p = Some 1"
    using p by auto
next
  assume "find_product db product_id = Some row \<and> truthy_int (p_category_override row)"
  then show "find_product (fst (auto_categorize_all config db)) product_id = Some row"
    using auto_categorize_all_keeps_overridden[OF assms] by blast
next
  show "map p_category_override (products (fst (auto_categorize_all config db)))
            = map p_category_override (products db)"
    by (rule auto_categorize_all_flags(1))
next
  assume "update_product_stats lib config now product_id db = Inr (db_upd, report)"
  then show "products db_upd = products db" by (rule update_product_stats_products)
next
  show "products (fst (update_pantry_level lib config now_str now product_id level db)) = products db"
    by (rule update_pantry_level_products)
qed

theorem override_survives_auto_categorize_witness:
  "distinct (map p_product_id (products sample_db))
   \<and> set_product_category sample_db ''eggs'' ''treat'' True
       = Inr (sample_db\<lparr>products :=
                [\<lparr>p_product_id = ''milk'', p_description = Some ''Whole milk'',
                  p_category_type = Some ''uncategorized'', p_category_override = Some 0\<rparr>,
                 \<lparr>p_product_id = ''eggs'', p_description = Some ''Eggs'',
                  p_category_type = Some ''treat'', p_category_override = Some 1\<rparr>]\<rparr>,
              \<lparr>cr_product_id = ''eggs'', cr_category = ''treat'',
               cr_previous_category = Some ''uncategorized'', cr_was_override = False\<rparr>)
   \<and> map_option p_category_type
        (find_product
           (fst (auto_categorize_all default_config
              (sample_db\<lparr>products :=
                [\<lparr>p_product_id = ''milk'', p_description = Some ''Whole milk'',
                  p_category_type = Some ''uncategorized'', p_category_override = Some 0\<rparr>,
                 \<lparr>p_product_id = ''eggs'', p_description = Some ''Eggs'',
                  p_category_type = Some ''treat'', p_category_override = Some 1\<rparr>]\<rparr>)))
           ''eggs'') = Some (Some ''treat'')
   \<and> truthy_int (Some 1)
   \<and> find_product
        (fst (auto_categorize_all default_config
           (sample_db\<lparr>products :=
             [\<lparr>p_product_id = ''milk'', p_description = Some ''Whole milk'',
               p_category_type = Some ''uncategorized'', p_category_override = Some 0\<rparr>,
              \<lparr>p_product_id = ''eggs'', p_description = Some ''Eggs'',
               p_category_type = Some ''treat'', p_category_override = Some 1\<rparr>]\<rparr>)))
        ''eggs''
       = Some \<lparr>p_product_id = ''eggs'', p_description = Some ''Eggs'',
                 p_category_type = Some ''treat'', p_category_override = Some 1\<rparr>
   \<and> update_product_stats basic_parsers default_config ''2024-01-20T10:00:00'' ''bread'' sample_db
       = Inr (sample_db, None)"
proof -
  let ?dbo = "sample_db\<lparr>products :=
                [\<lparr>p_product_id = ''milk'', p_description = Some ''Whole milk'',
                  p_category_type = Some ''uncategorized'', p_category_override = Some 0\<rparr>,
                 \<lparr>p_product_id = ''eggs'', p_description = Some ''Eggs'',
                  p_category_type = Some ''treat'', p_category_override = Some 1\<rparr>]\<rparr>"
  let ?res = "\<lparr>cr_product_id = ''eggs'', cr_category = ''treat'',
               cr_previous_category = Some ''uncategorized'', cr_was_override = False\<rparr>"
  have d: "distinct (map p_product_id (products sample_db))"
    by (simp add: sample_db_def)
  have s: "set_product_category sample_db ''eggs'' ''treat'' True = Inr (?dbo, ?res)"
    by (simp add: set_product_category_def valid_categories_def find_product_def sample_db_def
        truthy_int_def)
  have u: "update_product_stats basic_parsers default_config ''2024-01-20T10:00:00'' ''bread'' sample_db
       = Inr (sample_db, None)"
    by (simp add: update_product_stats_def qualifying_events_def sample_db_def order_placed_on_def)
  note inst = override_survives_auto_categorize[OF d, where product_id = "''eggs''"
      and category = "''treat''" and db_set = "?dbo" and res = "?res" and config = default_config]
  from inst[THEN conjunct1] s
  obtain p where "find_product (fst (auto_categorize_all default_config ?dbo)) ''eggs'' = Some p"
    "p_category_type p = Some ''treat''"
    by blast
  then have k: "map_option p_category_type
        (find_product (fst (auto_categorize_all default_config ?dbo)) ''eggs'') = Some (Some ''treat'')"
    by simp
  have t: "truthy_int (Some 1)" by (simp add: truthy_int_def)
  have d': "distinct (map p_product_id (products ?dbo))"
    by (simp add: sample_db_def)
  have f: "find_product ?dbo ''eggs''
             = Some \<lparr>p_product_id = ''eggs'', p_description = Some ''Eggs'',
                       p_category_type = Some ''treat'', p_category_override = Some 1\<rparr>"
    by (simp add: find_product_def)
  note inst' = override_survives_auto_categorize[OF d', where product_id = "''eggs''"
      and row = "\<lparr>p_product_id = ''eggs'', p_description = Some ''Eggs'',
                   p_category_type = Some ''treat'', p_category_override = Some 1\<rparr>"
      and config = default_config]
  from inst'[THEN conjunct2, THEN conjunct1] f t
  have k': "find_product (fst (auto_categorize_all default_config ?dbo)) ''eggs''
             = Some \<lparr>p_product_id = ''eggs'', p_description = Some ''Eggs'',
                       p_category_type = Some ''treat'', p_category_override = Some 1\<rparr>"
    by simp
  show ?thesis using d s k t k' u by (intro conjI)
qed

section \<open>Pantry status reads\<close>

lemma py_round_of_int: "py_round (real_of_int n) = n"
  by (simp add: py_round_def)


lemma status_listed:
  assumes "item \<in> set (pantry_items db)"
  shows "item_status lib now apply_depletion item \<in> set (get_pantry_status lib db now apply_depletion)"
  using assms by (simp add: get_pantry_status_def)

lemma current_level_decay:
  assumes "truthy_int (pi_auto_deplete item)"
    and "pi_daily_depletion_rate item = Some rate" "rate \<noteq> 0"
    and "pi_last_updated_at item = Some stamp" "stamp \<noteq> []"
    and "fromisoformat lib stamp = Some (naive t)"
  shows "current_level lib now True item
           = max 0 (real_of_int (pi_level_percent item) - (now - t) * rate)"
proof -
  have e: "(now - t) * 86400 / 86400 * rate = (now - t) * rate" by simp
  have "current_level lib now True item
          = max 0 (real_of_int (pi_level_percent item) - (now - t) * 86400 / 86400 * rate)"
    using assms
    by (simp add: current_level_def truthy_real_def datetime_diff_def naive_def Let_def
        del: nonzero_mult_div_cancel_right times_divide_eq_left)
  then show ?thesis unfolding e .
qed

lemma ten_nonzero: "(10::real) \<noteq> 0"
  by simp

lemma stamp_nonempty: "''2024-01-15T00:00:00'' \<noteq> []"
  by simp

lemma current_level_stored:
  assumes "\<not> truthy_int (pi_auto_deplete item) \<or> \<not> truthy_real (pi_daily_depletion_rate item)"
  shows "current_level lib now apply_depletion item = real_of_int (pi_level_percent item)"
  using assms by (auto simp: current_level_def Let_def)

lemma level_percent_rounds_current:
  "st_level_percent (item_status lib now apply_depletion item)
     = py_round (current_level lib now apply_depletion item)"
  by (simp add: item_status_def Let_def)

lemma milk_stamp: "fromisoformat basic_parsers ''2024-01-15T00:00:00'' = Some (naive 738900)"
  by code_simp




text \<open>
  Claim C10. For a pantry item whose auto-deplete flag is unset (0 or NULL) or whose daily
  rate is zero (0 or NULL), a status read with \<open>apply_depletion\<close> reports the stored level,
  whatever the time of the read. The level a read works with differs from the stored one
  only for an item with the flag set and a nonzero rate.
\<close>

theorem status_read_without_decay:
  assumes "item \<in> set (pantry_items db)"
    and "\<not> truthy_int (pi_auto_deplete item) \<or> \<not> truthy_real (pi_daily_depletion_rate item)"
  shows "item_status lib now True item \<in> set (get_pantry_status lib db now True)
       \<and> st_level_percent (item_status lib now True item) = pi_level_percent item
       \<and> (current_level lib now True other \<noteq> real_of_int (pi_level_percent other)
            \<longrightarrow> truthy_int (pi_auto_deplete other) \<and> truthy_real (pi_daily_depletion_rate other))"
proof -
  have "st_level_percent (item_status lib now True item) = pi_level_percent item"
    unfolding level_percent_rounds_current current_level_stored[OF assms(2)]
    by (rule py_round_of_int)
  moreover have "current_level lib now True other \<noteq> real_of_int (pi_level_percent other)
            \<longrightarrow> truthy_int (pi_auto_deplete other) \<and> truthy_real (pi_daily_depletion_rate other)"
    using current_level_stored[of other lib now True] by blast
  ultimately show ?thesis using status_listed[OF assms(1)] by (intro conjI)
qed

theorem status_read_without_decay_witness:
  "pantry_items sample_db ! 0 \<in> set (pantry_items sample_db)
   \<and> \<not> truthy_real (pi_daily_depletion_rate (pantry_items sample_db ! 0))
   \<and> pi_level_percent (pantry_items sample_db ! 0) = 80
   \<and> st_level_percent (item_status basic_parsers 739000 True (pantry_items sample_db ! 0)) = 80
   \<and> current_level basic_parsers 738905 True (pantry_items sample_db ! 1)
        \<noteq> real_of_int (pi_level_percent (pantry_items sample_db ! 1))
   \<and> truthy_real (pi_daily_depletion_rate (pantry_items sample_db ! 1))"
proof -
  let ?eggs = "pantry_items sample_db ! 0"
  let ?milk = "pantry_items sample_db ! 1"
  have a: "?eggs \<in> set (pantry_items sample_db)" by (simp add: sample_db_def)
  have b: "\<not> truthy_real (pi_daily_depletion_rate ?eggs)"
    by (simp add: sample_db_def truthy_real_def)
  have c: "pi_level_percent ?eggs = 80" by (simp add: sample_db_def)
  have mb: "truthy_int (pi_auto_deplete ?milk)" by (simp add: sample_db_def truthy_int_def)
  have mc: "pi_daily_depletion_rate ?milk = Some 10" by (simp add: sample_db_def)
  have md: "pi_last_updated_at ?milk = Some ''2024-01-15T00:00:00''" by (simp add: sample_db_def)
  have mf: "pi_level_percent ?milk = 100" by (simp add: sample_db_def)
  have "current_level basic_parsers 738905 True ?milk = 50"
    unfolding current_level_decay[OF mb mc ten_nonzero md stamp_nonempty milk_stamp] mf by simp
  then have m: "current_level basic_parsers 738905 True ?milk \<noteq> real_of_int (pi_level_percent ?milk)"
    unfolding mf by simp
  note inst = status_read_without_decay[OF a disjI2[OF b], of basic_parsers 739000]
  have lvl: "st_level_percent (item_status basic_parsers 739000 True ?eggs) = 80"
    using inst[of ?milk] c by simp
  note inst2 = status_read_without_decay[OF a disjI2[OF b], of basic_parsers 738905 ?milk]
  have t: "truthy_real (pi_daily_depletion_rate ?milk)"
    using inst2 m by blast
  show ?thesis using a b c lvl m t by (intro conjI)
qed

section \<open>The recomputation returns\<close>

lemma consumption_intervals_returns:
  assumes "dates_naive lib events"
  shows "\<exists>intervals. consumption_intervals lib events = Inr intervals"
  using assms
proof (induction events)
  case Nil
  then show ?case by simp
next
  case (Cons e es)
  show ?case
  proof (cases es)
    case Nil
    then show ?thesis by simp
  next
    case (Cons e2 es2)
    from Cons.prems have tail: "dates_naive lib es" by (simp add: dates_naive_def)
    from Cons.IH[OF tail] obtain intervals where
      ih: "consumption_intervals lib (e2 # es2) = Inr intervals"
      unfolding Cons by blast
    show ?thesis
    proof (cases "parse_date lib (ev_event_date e)")
      case None
      then show ?thesis unfolding Cons using ih by simp
    next
      case (Some prev_date)
      note p = Some
      show ?thesis
      proof (cases "parse_date lib (ev_event_date e2)")
        case None
        then show ?thesis unfolding Cons using ih p by simp
      next
        case (Some curr_date)
        from Cons.prems p have np: "dt_utcoffset prev_date = None"
          by (simp add: dates_naive_def)
        from Cons.prems Some have nc: "dt_utcoffset curr_date = None"
          unfolding Cons by (simp add: dates_naive_def)
        have "datetime_diff curr_date prev_date = Inr (dt_days curr_date - dt_days prev_date)"
          by (simp add: datetime_diff_def np nc)
        then show ?thesis unfolding Cons using ih p Some by (simp add: Let_def)
      qed
    qed
  qed
qed

lemma calculate_consumption_rate_returns:
  assumes "dates_naive lib events"
  shows "\<exists>consumption. calculate_consumption_rate lib events = Inr consumption"
proof -
  from consumption_intervals_returns[OF assms] obtain intervals where
    iv: "consumption_intervals lib events = Inr intervals" by blast
  have sd: "\<exists>sd. (if length intervals > 1 then stdev (map real_of_int intervals) else Inr 0) = Inr sd"
    by (simp add: stdev_def Let_def)
  then obtain sd where
    "(if length intervals > 1 then stdev (map real_of_int intervals) else Inr 0) = Inr sd"
    by blast
  then show ?thesis
    unfolding calculate_consumption_rate_def Let_def iv by simp
qed

lemma update_product_stats_returns:
  assumes "dates_naive lib (qualifying_events db product_id)"
    and "product_exists db product_id"
  shows "\<exists>db' report. update_product_stats lib config now product_id db = Inr (db', report)"
proof -
  from calculate_consumption_rate_returns[OF assms(1)] obtain consumption where
    "calculate_consumption_rate lib (qualifying_events db product_id) = Inr consumption"
    by blast
  then show ?thesis
    using assms(2) unfolding update_product_stats_def Let_def by simp
qed

section \<open>Depletion feedback and recomputation\<close>

lemma find_pantry_after_update:
  assumes "\<And>i. pi_product_id (f i) = pi_product_id i"
  shows "find (\<lambda>i. pi_product_id i = product_id)
           (map (\<lambda>i. if pi_product_id i = product_id then f i else i) rows)
         = map_option f (find (\<lambda>i. pi_product_id i = product_id) rows)"
  using assms by (induction rows) auto

lemma update_product_stats_frame:
  assumes "update_product_stats lib config now product_id db = Inr (db', report)"
  shows "purchase_events db' = purchase_events db" "pantry_items db' = pantry_items db"
  using assms unfolding update_product_stats_def Let_def
  by (auto split: if_splits sum.splits)

lemma update_product_stats_report:
  assumes "update_product_stats lib config now product_id db = Inr (db', report)"
    and "qualifying_events db product_id \<noteq> []"
  shows "\<exists>stats_row conf. report = Some (stats_row, conf)
           \<and> product_stats db' = (product_stats db)(product_id \<mapsto> stats_row)
           \<and> ps_total_purchases stats_row = int (length (qualifying_events db product_id))
           \<and> ps_updated_at stats_row = now"
  using assms unfolding update_product_stats_def Let_def
  by (auto split: if_splits sum.splits)

lemma qualifying_events_depletion:
  "length (qualifying_events
             (db\<lparr>purchase_events := purchase_events db @ [depletion_event product_id depleted_at]\<rparr>)
             product_id)
     = length (qualifying_events db product_id) + 1"
  by (simp add: qualifying_events_def depletion_event_def)

lemma record_depletion_event_recorded:
  assumes "product_exists db product_id"
    and "update_product_stats lib config stats_now product_id
           (db\<lparr>purchase_events := purchase_events db @ [depletion_event product_id depleted_at]\<rparr>)
         = Inr (db_r, report)"
  shows "record_depletion_event lib config stats_now db product_id last_restocked depleted_at
         = (db_r\<lparr>pantry_items :=
                   map (\<lambda>i. if pi_product_id i = product_id
                             then i\<lparr>pi_daily_depletion_rate :=
                                      Some (calculate_depletion_rate db_r product_id)\<rparr>
                             else i) (pantry_items db_r)\<rparr>, True)"
  using assms by (simp add: record_depletion_event_def Let_def)

lemma record_depletion_event_ledger:
  assumes "product_exists db product_id"
  shows "purchase_events (fst (record_depletion_event lib config stats_now db product_id
                                 last_restocked depleted_at))
         = purchase_events db @ [depletion_event product_id depleted_at]"
proof (cases "update_product_stats lib config stats_now product_id
           (db\<lparr>purchase_events := purchase_events db @ [depletion_event product_id depleted_at]\<rparr>)")
  case (Inl err)
  then show ?thesis using assms by (simp add: record_depletion_event_def Let_def)
next
  case (Inr result)
  obtain db_r report where result: "result = (db_r, report)" by (cases result)
  from Inr have "purchase_events db_r
                   = purchase_events db @ [depletion_event product_id depleted_at]"
    unfolding result by (simp add: update_product_stats_frame(1))
  then show ?thesis
    unfolding record_depletion_event_recorded[OF assms Inr[unfolded result]] by simp
qed

lemma update_pantry_level_unfold:
  assumes "find_pantry_item db product_id = Some item"
  shows "update_pantry_level lib config now_str stats_now product_id level0 db
         = (let level = max 0 (min 100 level0);
                outcome = (if level \<le> 5 \<and> 5 < pi_level_percent item
                              \<and> truthy_str (pi_last_restocked_at item)
                           then record_depletion_event lib config stats_now db product_id
                                  (the (pi_last_restocked_at item)) now_str
                           else (db, False))
            in ((fst outcome)\<lparr>pantry_items :=
                   map (\<lambda>i. if pi_product_id i = product_id
                             then i\<lparr>pi_level_percent := level, pi_last_updated_at := Some now_str\<rparr>
                             else i) (pantry_items (fst outcome))\<rparr>,
                LevelSet level now_str (snd outcome)))"
  using assms by (simp add: update_pantry_level_def Let_def split: prod.splits)

text \<open>
  Claim C8. Take a product tracked in the pantry (and so, by the foreign key, present in
  \<open>products\<close>) and let \<open>level\<close> be the requested level clamped to 0..100. If \<open>level \<le> 5\<close>,
  the stored level was above 5 and \<open>last_restocked_at\<close> is neither NULL nor empty, then
  \<open>update_pantry_level\<close> appends exactly one event to the ledger, of type \<open>pantry_depleted\<close>,
  stamped with the time of the call and dated with its date part. The recomputation of
  the product's statistics on that ledger returns when the dates of the product's events
  are naive; and when it returns, the statistics stored afterwards are the recomputed
  ones, they count the new event, and the item's \<open>daily_depletion_rate\<close> is the rate
  derived from them. If one of the three conditions fails, the ledger and the statistics
  are unchanged.
\<close>

theorem level_set_depletion_feedback:
  assumes "find_pantry_item db product_id = Some item"
    and "product_exists db product_id"
    and "update_pantry_level lib config now_str stats_now product_id level0 db = (db', res)"
    and "level = max 0 (min 100 level0)"
  shows "(level \<le> 5 \<and> 5 < pi_level_percent item \<and> truthy_str (pi_last_restocked_at item)
          \<longrightarrow> purchase_events db'
                = purchase_events db @
                    [\<lparr>ev_product_id = product_id, ev_quantity = 1,
                      ev_event_type = ''pantry_depleted'', ev_event_date = take 10 now_str,
                      ev_event_timestamp = now_str\<rparr>]
              \<and> (dates_naive lib
                    (qualifying_events
                       (db\<lparr>purchase_events := purchase_events db @
                             [\<lparr>ev_product_id = product_id, ev_quantity = 1,
                               ev_event_type = ''pantry_depleted'', ev_event_date = take 10 now_str,
                               ev_event_timestamp = now_str\<rparr>]\<rparr>) product_id)
                  \<longrightarrow> (\<exists>recomputed.
                        update_product_stats lib config stats_now product_id
                          (db\<lparr>purchase_events := purchase_events db @
                                [\<lparr>ev_product_id = product_id, ev_quantity = 1,
                                  ev_event_type = ''pantry_depleted'', ev_event_date = take 10 now_str,
                                  ev_event_timestamp = now_str\<rparr>]\<rparr>) = Inr recomputed))
              \<and> (update_product_stats lib config stats_now product_id
                    (db\<lparr>purchase_events := purchase_events db @
                          [\<lparr>ev_product_id = product_id, ev_quantity = 1,
                            ev_event_type = ''pantry_depleted'', ev_event_date = take 10 now_str,
                            ev_event_timestamp = now_str\<rparr>]\<rparr>) = Inr (db_r, report)
                  \<longrightarrow> product_stats db' = product_stats db_r
                      \<and> report \<noteq> None
                      \<and> product_stats db' product_id = map_option fst report
                      \<and> map_option ps_total_purchases (product_stats db' product_id)
                          = Some (int (length (qualifying_events db product_id)) + 1)
                      \<and> find_pantry_item db' product_id
                          = Some (item\<lparr>pi_daily_depletion_rate :=
                                          Some (calculate_depletion_rate db' product_id),
                                        pi_level_percent := level,
                                        pi_last_updated_at := Some now_str\<rparr>)
                      \<and> res = LevelSet level now_str True))
       \<and> (\<not> (level \<le> 5 \<and> 5 < pi_level_percent item \<and> truthy_str (pi_last_restocked_at item))
          \<longrightarrow> purchase_events db' = purchase_events db
              \<and> product_stats db' = product_stats db
              \<and> find_pantry_item db' product_id
                  = Some (item\<lparr>pi_level_percent := level, pi_last_updated_at := Some now_str\<rparr>)
              \<and> res = LevelSet level now_str False)"
proof (intro conjI impI)
  let ?ev = "\<lparr>ev_product_id = product_id, ev_quantity = 1,
               ev_event_type = ''pantry_depleted'', ev_event_date = take 10 now_str,
               ev_event_timestamp = now_str\<rparr>"
  have ev: "?ev = depletion_event product_id now_str" by (simp add: depletion_event_def)
  assume c: "level \<le> 5 \<and> 5 < pi_level_percent item \<and> truthy_str (pi_last_restocked_at item)"
  let ?out = "record_depletion_event lib config stats_now db product_id
                (the (pi_last_restocked_at item)) now_str"
  from assms(3) c have db': "db' = (fst ?out)\<lparr>pantry_items :=
                   map (\<lambda>i. if pi_product_id i = product_id
                             then i\<lparr>pi_level_percent := level, pi_last_updated_at := Some now_str\<rparr>
                             else i) (pantry_items (fst ?out))\<rparr>"
    and res: "res = LevelSet level now_str (snd ?out)"
    unfolding update_pantry_level_unfold[OF assms(1)] assms(4)[symmetric] Let_def by simp_all
  show "purchase_events db' = purchase_events db @ [?ev]"
    unfolding db' ev by (simp add: record_depletion_event_ledger[OF assms(2)])
  have listed: "product_exists (db\<lparr>purchase_events := purchase_events db @ [?ev]\<rparr>) product_id"
    using assms(2) by (simp add: product_exists_def)
  {
    assume "dates_naive lib
              (qualifying_events (db\<lparr>purchase_events := purchase_events db @ [?ev]\<rparr>) product_id)"
    from update_product_stats_returns[OF this listed]
    show "\<exists>recomputed. update_product_stats lib config stats_now product_id
            (db\<lparr>purchase_events := purchase_events db @ [?ev]\<rparr>) = Inr recomputed"
      by blast
  }
  assume "update_product_stats lib config stats_now product_id
            (db\<lparr>purchase_events := purchase_events db @ [?ev]\<rparr>) = Inr (db_r, report)"
  then have u: "update_product_stats lib config stats_now product_id
            (db\<lparr>purchase_events := purchase_events db @ [depletion_event product_id now_str]\<rparr>)
          = Inr (db_r, report)"
    unfolding ev .
  note out = record_depletion_event_recorded[OF assms(2) u]
  have ne: "qualifying_events
              (db\<lparr>purchase_events := purchase_events db @ [depletion_event product_id now_str]\<rparr>)
              product_id \<noteq> []"
    using qualifying_events_depletion[of db product_id now_str] by (metis add_is_0 length_0_conv zero_neq_one)
  from update_product_stats_report[OF u ne] obtain stats_row conf where
    rep: "report = Some (stats_row, conf)"
    and st: "product_stats db_r product_id = Some stats_row"
    and tot: "ps_total_purchases stats_row = int (length (qualifying_events db product_id)) + 1"
    unfolding qualifying_events_depletion by auto
  have items: "pantry_items db_r = pantry_items db"
    using update_product_stats_frame(2)[OF u] by simp
  show "product_stats db' = product_stats db_r" unfolding db' out by simp
  then have cd: "calculate_depletion_rate db' product_id = calculate_depletion_rate db_r product_id"
    by (simp add: calculate_depletion_rate_def)
  show "report \<noteq> None" using rep by simp
  show "product_stats db' product_id = map_option fst report"
    unfolding db' out using rep st by simp
  show "map_option ps_total_purchases (product_stats db' product_id)
          = Some (int (length (qualifying_events db product_id)) + 1)"
    unfolding db' out using st tot by simp
  show "res = LevelSet level now_str True" unfolding res out by simp
  have "find_pantry_item db' product_id
          = map_option (\<lambda>i. i\<lparr>pi_level_percent := level, pi_last_updated_at := Some now_str\<rparr>)
              (map_option (\<lambda>i. i\<lparr>pi_daily_depletion_rate :=
                                    Some (calculate_depletion_rate db_r product_id)\<rparr>)
                 (find_pantry_item db product_id))"
  proof -
    let ?f = "\<lambda>i. i\<lparr>pi_daily_depletion_rate := Some (calculate_depletion_rate db_r product_id)\<rparr>"
    let ?g = "\<lambda>i. i\<lparr>pi_level_percent := level, pi_last_updated_at := Some now_str\<rparr>"
    have rows: "pantry_items db'
                  = map (\<lambda>i. if pi_product_id i = product_id then ?g i else i)
                      (map (\<lambda>i. if pi_product_id i = product_id then ?f i else i) (pantry_items db))"
      unfolding db' out by (simp add: items del: map_map)
    have "find (\<lambda>i. pi_product_id i = product_id) (pantry_items db')
            = map_option ?g (find (\<lambda>i. pi_product_id i = product_id)
                (map (\<lambda>i. if pi_product_id i = product_id then ?f i else i) (pantry_items db)))"
      unfolding rows by (rule find_pantry_after_update) simp
    also have "find (\<lambda>i. pi_product_id i = product_id)
                (map (\<lambda>i. if pi_product_id i = product_id then ?f i else i) (pantry_items db))
               = map_option ?f (find (\<lambda>i. pi_product_id i = product_id) (pantry_items db))"
      by (rule find_pantry_after_update) simp
    finally show ?thesis unfolding find_pantry_item_def .
  qed
  then show "find_pantry_item db' product_id
               = Some (item\<lparr>pi_daily_depletion_rate :=
                               Some (calculate_depletion_rate db' product_id),
                             pi_level_percent := level,
                             pi_last_updated_at := Some now_str\<rparr>)"
    unfolding cd assms(1) by simp
next
  assume n: "\<not> (level \<le> 5 \<and> 5 < pi_level_percent item \<and> truthy_str (pi_last_restocked_at item))"
  from assms(3) n have db': "db' = db\<lparr>pantry_items :=
                   map (\<lambda>i. if pi_product_id i = product_id
                             then i\<lparr>pi_level_percent := level, pi_last_updated_at := Some now_str\<rparr>
                             else i) (pantry_items db)\<rparr>"
    and res: "res = LevelSet level now_str False"
    unfolding update_pantry_level_unfold[OF assms(1)] assms(4)[symmetric] Let_def by simp_all
  show "purchase_events db' = purchase_events db" unfolding db' by simp
  show "product_stats db' = product_stats db" unfolding db' by simp
  show "res = LevelSet level now_str False" by (rule res)
  show "find_pantry_item db' product_id
          = Some (item\<lparr>pi_level_percent := level, pi_last_updated_at := Some now_str\<rparr>)"
    unfolding db' find_pantry_item_def
    using assms(1) by (simp add: find_pantry_after_update find_pantry_item_def)
qed

lemma sample_eggs_ledger:
  "qualifying_events
     (sample_db\<lparr>purchase_events := purchase_events sample_db @
         [depletion_event ''eggs'' ''2024-01-24T09:30:00'']\<rparr>) ''eggs''
   = [order_placed_on ''eggs'' ''2024-01-15'', depletion_event ''eggs'' ''2024-01-24T09:30:00'']"
  by code_simp

lemma sample_eggs_dates:
  "map (\<lambda>e. parse_date basic_parsers (ev_event_date e))
     [order_placed_on ''eggs'' ''2024-01-15'', depletion_event ''eggs'' ''2024-01-24T09:30:00'']
   = map (\<lambda>t. Some (naive t)) [738900, 738909]"
  by code_simp

lemma sample_intervals_9: "positive_intervals [738900, 738909] = [9]"
  by (simp add: positive_intervals_def whole_day_gaps_def)

lemma halving_average_9: "halving_weighted_average [9] = 9"
  by (simp add: halving_weighted_average_def)

lemma sample_eggs_rate:
  "calculate_consumption_rate basic_parsers
     [order_placed_on ''eggs'' ''2024-01-15'', depletion_event ''eggs'' ''2024-01-24T09:30:00'']
   = Inr \<lparr>days_between = Some 9, std_dev = 0, confidence = 1 / 10, sample_size = 1\<rparr>"
proof -
  have ne: "positive_intervals [738900, 738909] \<noteq> []" unfolding sample_intervals_9 by simp
  show ?thesis
    unfolding calculate_consumption_rate_naive[OF sample_eggs_dates ne] sample_intervals_9
      halving_average_9
    by simp
qed


lemma sample_eggs_recomputed:
  "update_product_stats basic_parsers default_config stamp ''eggs''
     (sample_db\<lparr>purchase_events := purchase_events sample_db @
         [depletion_event ''eggs'' ''2024-01-24T09:30:00'']\<rparr>)
   = Inr ((sample_db\<lparr>purchase_events := purchase_events sample_db @
              [depletion_event ''eggs'' ''2024-01-24T09:30:00'']\<rparr>)
            \<lparr>product_stats := (product_stats sample_db)(''eggs'' \<mapsto>
                \<lparr>ps_total_purchases = 2, ps_total_quantity = 2, ps_avg_quantity_per_purchase = 1,
                 ps_avg_days_between_purchases = Some 9, ps_std_dev_days = 0,
                 ps_last_purchase_date = ''2024-01-24'', ps_first_purchase_date = ''2024-01-15'',
                 ps_purchase_frequency_score = 1 / 9, ps_seasonality_score = 0,
                 ps_detected_category = ''uncategorized'', ps_updated_at = stamp\<rparr>)\<rparr>,
          Some (\<lparr>ps_total_purchases = 2, ps_total_quantity = 2, ps_avg_quantity_per_purchase = 1,
                 ps_avg_days_between_purchases = Some 9, ps_std_dev_days = 0,
                 ps_last_purchase_date = ''2024-01-24'', ps_first_purchase_date = ''2024-01-15'',
                 ps_purchase_frequency_score = 1 / 9, ps_seasonality_score = 0,
                 ps_detected_category = ''uncategorized'', ps_updated_at = stamp\<rparr>, 1 / 10))"
proof -
  have ex: "product_exists
     (sample_db\<lparr>purchase_events := purchase_events sample_db @
         [depletion_event ''eggs'' ''2024-01-24T09:30:00'']\<rparr>) ''eggs''"
    by (simp add: product_exists_def sample_db_def)
  show ?thesis
    unfolding update_product_stats_def sample_eggs_ledger Let_def sample_eggs_rate
    using ex
    by (simp add: calculate_seasonality_score_def detect_category_def
        order_placed_on_def depletion_event_def)
qed


theorem level_set_depletion_feedback_witness:
  "find_pantry_item sample_db ''eggs''
     = Some \<lparr>pi_product_id = ''eggs'', pi_description = Some ''Eggs'', pi_level_percent = 80,
              pi_last_restocked_at = Some ''2024-01-15T00:00:00'',
              pi_last_updated_at = Some ''2024-01-15T00:00:00'',
              pi_auto_deplete = Some 1, pi_daily_depletion_rate = Some 0, pi_low_threshold = 20\<rparr>
   \<and> product_exists sample_db ''eggs''
   \<and> (3::int) \<le> 5 \<and> (5::int) < 80 \<and> truthy_str (Some ''2024-01-15T00:00:00'')
   \<and> purchase_events
        (fst (update_pantry_level basic_parsers default_config ''2024-01-24T09:30:00''
                ''2024-01-24T09:30:01'' ''eggs'' 3 sample_db))
       = purchase_events sample_db @
           [\<lparr>ev_product_id = ''eggs'', ev_quantity = 1, ev_event_type = ''pantry_depleted'',
             ev_event_date = ''2024-01-24'', ev_event_timestamp = ''2024-01-24T09:30:00''\<rparr>]
   \<and> dates_naive basic_parsers
        (qualifying_events
           (sample_db\<lparr>purchase_events := purchase_events sample_db @
               [\<lparr>ev_product_id = ''eggs'', ev_quantity = 1, ev_event_type = ''pantry_depleted'',
                 ev_event_date = ''2024-01-24'', ev_event_timestamp = ''2024-01-24T09:30:00''\<rparr>]\<rparr>)
           ''eggs'')
   \<and> isl (update_product_stats basic_parsers default_config ''2024-01-24T09:30:01'' ''eggs''
            (sample_db\<lparr>purchase_events := purchase_events sample_db @
               [\<lparr>ev_product_id = ''eggs'', ev_quantity = 1, ev_event_type = ''pantry_depleted'',
                 ev_event_date = ''2024-01-24'', ev_event_timestamp = ''2024-01-24T09:30:00''\<rparr>]\<rparr>))
       = False
   \<and> map_option ps_total_purchases
        (product_stats
           (fst (update_pantry_level basic_parsers default_config ''2024-01-24T09:30:00''
                   ''2024-01-24T09:30:01'' ''eggs'' 3 sample_db)) ''eggs'') = Some 2
   \<and> map_option ps_avg_days_between_purchases
        (product_stats
           (fst (update_pantry_level basic_parsers default_config ''2024-01-24T09:30:00''
                   ''2024-01-24T09:30:01'' ''eggs'' 3 sample_db)) ''eggs'') = Some (Some 9)
   \<and> map_option pi_daily_depletion_rate
        (find_pantry_item
           (fst (update_pantry_level basic_parsers default_config ''2024-01-24T09:30:00''
                   ''2024-01-24T09:30:01'' ''eggs'' 3 sample_db)) ''eggs'') = Some (Some (100 / 9))
   \<and> snd (update_pantry_level basic_parsers default_config ''2024-01-24T09:30:00''
             ''2024-01-24T09:30:01'' ''eggs'' 3 sample_db)
       = LevelSet 3 ''2024-01-24T09:30:00'' True
   \<and> \<not> ((50::int) \<le> 5)
   \<and> purchase_events
        (fst (update_pantry_level basic_parsers default_config ''2024-01-24T09:30:00''
                ''2024-01-24T09:30:01'' ''eggs'' 50 sample_db))
       = purchase_events sample_db
   \<and> snd (update_pantry_level basic_parsers default_config ''2024-01-24T09:30:00''
             ''2024-01-24T09:30:01'' ''eggs'' 50 sample_db)
       = LevelSet 50 ''2024-01-24T09:30:00'' False"
proof -
  let ?item = "\<lparr>pi_product_id = ''eggs'', pi_description = Some ''Eggs'', pi_level_percent = 80,
              pi_last_restocked_at = Some ''2024-01-15T00:00:00'',
              pi_last_updated_at = Some ''2024-01-15T00:00:00'',
              pi_auto_deplete = Some 1, pi_daily_depletion_rate = Some 0, pi_low_threshold = 20\<rparr>"
  let ?X = "update_pantry_level basic_parsers default_config ''2024-01-24T09:30:00''
              ''2024-01-24T09:30:01'' ''eggs'' 3 sample_db"
  let ?Y = "update_pantry_level basic_parsers default_config ''2024-01-24T09:30:00''
              ''2024-01-24T09:30:01'' ''eggs'' 50 sample_db"
  let ?ev = "\<lparr>ev_product_id = ''eggs'', ev_quantity = 1, ev_event_type = ''pantry_depleted'',
              ev_event_date = take 10 ''2024-01-24T09:30:00'',
              ev_event_timestamp = ''2024-01-24T09:30:00''\<rparr>"
  let ?row = "\<lparr>ps_total_purchases = 2, ps_total_quantity = 2, ps_avg_quantity_per_purchase = 1,
                 ps_avg_days_between_purchases = Some 9, ps_std_dev_days = 0,
                 ps_last_purchase_date = ''2024-01-24'', ps_first_purchase_date = ''2024-01-15'',
                 ps_purchase_frequency_score = 1 / 9, ps_seasonality_score = 0,
                 ps_detected_category = ''uncategorized'',
                 ps_updated_at = ''2024-01-24T09:30:01''\<rparr>"
  let ?dbr = "(sample_db\<lparr>purchase_events := purchase_events sample_db @ [?ev]\<rparr>)
                \<lparr>product_stats := (product_stats sample_db)(''eggs'' \<mapsto> ?row)\<rparr>"
  have f: "find_pantry_item sample_db ''eggs'' = Some ?item"
    by (simp add: find_pantry_item_def sample_db_def)
  have e: "product_exists sample_db ''eggs''"
    by (simp add: product_exists_def sample_db_def)
  have t: "truthy_str (Some ''2024-01-15T00:00:00'')" by (simp add: truthy_str_def)
  have x: "?X = (fst ?X, snd ?X)" by simp
  have y: "?Y = (fst ?Y, snd ?Y)" by simp
  have l3: "(3::int) = max 0 (min 100 3)" by simp
  have l50: "(50::int) = max 0 (min 100 50)" by simp
  have c: "(3::int) \<le> 5 \<and> 5 < pi_level_percent ?item \<and> truthy_str (pi_last_restocked_at ?item)"
    using t by simp
  have u: "update_product_stats basic_parsers default_config ''2024-01-24T09:30:01'' ''eggs''
             (sample_db\<lparr>purchase_events := purchase_events sample_db @ [?ev]\<rparr>)
           = Inr (?dbr, Some (?row, 1 / 10))"
    using sample_eggs_recomputed[of "''2024-01-24T09:30:01''"]
    by (simp add: depletion_event_def)
  note pos = level_set_depletion_feedback[OF f e x l3, where db_r = "?dbr"
      and report = "Some (?row, 1 / 10)", THEN conjunct1, rule_format, OF c]
  have dn: "dates_naive basic_parsers
        (qualifying_events (sample_db\<lparr>purchase_events := purchase_events sample_db @ [?ev]\<rparr>)
           ''eggs'')"
    by code_simp
  from pos[THEN conjunct2, THEN conjunct1, rule_format, OF dn]
  have ret: "isl (update_product_stats basic_parsers default_config ''2024-01-24T09:30:01'' ''eggs''
            (sample_db\<lparr>purchase_events := purchase_events sample_db @ [?ev]\<rparr>)) = False"
    by auto
  have dn': "dates_naive basic_parsers
        (qualifying_events
           (sample_db\<lparr>purchase_events := purchase_events sample_db @
               [\<lparr>ev_product_id = ''eggs'', ev_quantity = 1, ev_event_type = ''pantry_depleted'',
                 ev_event_date = ''2024-01-24'', ev_event_timestamp = ''2024-01-24T09:30:00''\<rparr>]\<rparr>)
           ''eggs'')"
    using dn by simp
  have ret': "isl (update_product_stats basic_parsers default_config ''2024-01-24T09:30:01'' ''eggs''
            (sample_db\<lparr>purchase_events := purchase_events sample_db @
               [\<lparr>ev_product_id = ''eggs'', ev_quantity = 1, ev_event_type = ''pantry_depleted'',
                 ev_event_date = ''2024-01-24'', ev_event_timestamp = ''2024-01-24T09:30:00''\<rparr>]\<rparr>))
       = False"
    using ret by simp
  note fed = pos[THEN conjunct2, THEN conjunct2, rule_format, OF u]
  have p1: "purchase_events (fst ?X) = purchase_events sample_db @
           [\<lparr>ev_product_id = ''eggs'', ev_quantity = 1, ev_event_type = ''pantry_depleted'',
             ev_event_date = ''2024-01-24'', ev_event_timestamp = ''2024-01-24T09:30:00''\<rparr>]"
    using pos[THEN conjunct1] by simp
  have st: "product_stats (fst ?X) ''eggs'' = Some ?row"
    using fed[THEN conjunct2, THEN conjunct2, THEN conjunct1] by simp
  have p2: "map_option ps_total_purchases (product_stats (fst ?X) ''eggs'') = Some 2"
    unfolding st by simp
  have p3: "map_option ps_avg_days_between_purchases (product_stats (fst ?X) ''eggs'') = Some (Some 9)"
    unfolding st by simp
  have rate: "calculate_depletion_rate (fst ?X) ''eggs'' = 100 / 9"
    unfolding calculate_depletion_rate_def st by simp
  have p4: "map_option pi_daily_depletion_rate (find_pantry_item (fst ?X) ''eggs'')
              = Some (Some (100 / 9))"
    using fed[THEN conjunct2, THEN conjunct2, THEN conjunct2, THEN conjunct2, THEN conjunct1]
    unfolding rate by simp
  have p5: "snd ?X = LevelSet 3 ''2024-01-24T09:30:00'' True"
    using fed[THEN conjunct2, THEN conjunct2, THEN conjunct2, THEN conjunct2, THEN conjunct2] .
  have n: "\<not> ((50::int) \<le> 5 \<and> 5 < pi_level_percent ?item \<and> truthy_str (pi_last_restocked_at ?item))"
    by simp
  note neg = level_set_depletion_feedback[OF f e y l50, THEN conjunct2, rule_format, OF n]
  have p6: "purchase_events (fst ?Y) = purchase_events sample_db"
    using neg[THEN conjunct1] .
  have p7: "snd ?Y = LevelSet 50 ''2024-01-24T09:30:00'' False"
    using neg[THEN conjunct2, THEN conjunct2, THEN conjunct2] .
  have k: "(3::int) \<le> 5" "(5::int) < 80" "\<not> ((50::int) \<le> 5)" by simp_all
  show ?thesis
    by (intro conjI f e k t p1 dn' ret' p2 p3 p4 p5 p6 p7)
qed

section \<open>Recomputing the statistics of a product\<close>

















end
